theory Spec2Isabelle
  imports Complex_Main "HOL-Library.Option_ord" "HOL-Library.Multiset"
begin

section \<open>SQL values, aggregates and joins\<close>

text \<open>
  The storage layer of the dashboard (server/storage.ts) is a set of SQL queries built with
  a query builder. The queries are embedded as list functions over the stored rows.
  A table is the list of its rows; the order in which a query yields rows, where SQL
  leaves it open, is an input of the model (a plan, below). A nullable SQL value
  is an \<open>option\<close> (\<open>None\<close> is NULL). \<open>DECIMAL\<close>, \<open>NUMERIC\<close> and \<open>real\<close>
  columns are exact rationals: rounding of the database's numerics and of JavaScript's
  doubles is not part of the model. A query that raises (PostgreSQL raises on a division
  by zero) and a JavaScript exception are values of type \<open>error\<close>.
\<close>

datatype error = DivisionByZero | TypeError

type_synonym 'a nullable = "'a option"

text \<open>The non-NULL values of a column, which is what every SQL aggregate ranges over.\<close>

definition non_null :: "'a nullable list \<Rightarrow> 'a list" where
  "non_null vs = List.map_filter (\<lambda>v. v) vs"

text \<open>\<open>SUM\<close> and \<open>AVG\<close> are NULL when there is no non-NULL input.\<close>

definition sql_sum :: "('a::monoid_add) nullable list \<Rightarrow> 'a nullable" where
  "sql_sum vs = (case non_null vs of [] \<Rightarrow> None | x # xs \<Rightarrow> Some (sum_list (x # xs)))"

definition sql_avg :: "rat nullable list \<Rightarrow> rat nullable" where
  "sql_avg vs =
     (case non_null vs of [] \<Rightarrow> None
      | x # xs \<Rightarrow> Some (sum_list (x # xs) / of_nat (length (x # xs))))"

definition sql_count_distinct :: "'a nullable list \<Rightarrow> nat" where
  "sql_count_distinct vs = length (remdups (non_null vs))"

definition coalesce :: "'a nullable \<Rightarrow> 'a \<Rightarrow> 'a" where
  "coalesce v d = (case v of None \<Rightarrow> d | Some x \<Rightarrow> x)"

text \<open>
  Comparison, division and multiplication are strict in NULL; a \<open>WHEN\<close> condition
  that is NULL is not taken. Division by a non-NULL zero raises.
\<close>

definition sql_gt :: "rat nullable \<Rightarrow> rat nullable \<Rightarrow> bool nullable" where
  "sql_gt a b = (case (a, b) of (Some x, Some y) \<Rightarrow> Some (x > y) | _ \<Rightarrow> None)"

definition is_true :: "bool nullable \<Rightarrow> bool" where
  "is_true c = (c = Some True)"

definition sql_div :: "rat nullable \<Rightarrow> rat nullable \<Rightarrow> error + rat nullable" where
  "sql_div a b =
     (case (a, b) of
        (Some x, Some y) \<Rightarrow> if y = 0 then Inl DivisionByZero else Inr (Some (x / y))
      | _ \<Rightarrow> Inr None)"

definition sql_mul :: "rat nullable \<Rightarrow> rat nullable \<Rightarrow> rat nullable" where
  "sql_mul a b = (case (a, b) of (Some x, Some y) \<Rightarrow> Some (x * y) | _ \<Rightarrow> None)"

text \<open>
  The expression that storage.ts repeats in every grouped query:
  \<^verbatim>\<open>CASE WHEN SUM(dues) > 0 THEN (SUM(collected) / SUM(dues)) * 100 ELSE 0 END\<close>,
  as a function of the two sums.
\<close>

definition collectionRateCase :: "rat nullable \<Rightarrow> rat nullable \<Rightarrow> error + rat nullable" where
  "collectionRateCase sumDues sumCollected =
     (if is_true (sql_gt sumDues (Some 0))
      then (case sql_div sumCollected sumDues of
              Inl e \<Rightarrow> Inl e
            | Inr q \<Rightarrow> Inr (sql_mul q (Some 100)))
      else Inr (Some 0))"

text \<open>A query fails as a whole when the expression of one of its rows fails.\<close>

fun sql_rows :: "(error + 'a) list \<Rightarrow> error + 'a list" where
  "sql_rows [] = Inr []"
| "sql_rows (r # rs) =
     (case r of
        Inl e \<Rightarrow> Inl e
      | Inr x \<Rightarrow> (case sql_rows rs of Inl e \<Rightarrow> Inl e | Inr xs \<Rightarrow> Inr (x # xs)))"

definition inner_join :: "'a list \<Rightarrow> 'b list \<Rightarrow> ('a \<Rightarrow> 'b \<Rightarrow> bool) \<Rightarrow> ('a \<times> 'b) list" where
  "inner_join ls rs on = concat (map (\<lambda>l. map (Pair l) (filter (on l) rs)) ls)"

text \<open>A left join keeps a left row without a match once, with NULLs on the right.\<close>

definition left_join :: "'a list \<Rightarrow> 'b list \<Rightarrow> ('a \<Rightarrow> 'b \<Rightarrow> bool) \<Rightarrow> ('a \<times> 'b option) list" where
  "left_join ls rs on =
     concat (map (\<lambda>l. case filter (on l) rs of
                          [] \<Rightarrow> [(l, None)]
                        | m # ms \<Rightarrow> map (\<lambda>r. (l, Some r)) (m # ms)) ls)"

text \<open>
  SQL leaves open the order in which a query without \<open>ORDER BY\<close> yields its rows, and the
  order of rows whose \<open>ORDER BY\<close> keys are equal. The order that the database chooses is
  an input of the model: a plan maps the rows of a query to the order in which the
  executor yields them. A plan can only reorder: where its output is not a permutation
  of the rows, it is ignored.
\<close>

type_synonym 'a plan = "'a list \<Rightarrow> 'a list"

definition arranged :: "'a plan \<Rightarrow> 'a list \<Rightarrow> 'a list" where
  "arranged plan rows = (if mset (plan rows) = mset rows then plan rows else rows)"

text \<open>
  \<open>GROUP BY\<close>: one group per distinct key, holding the rows with that key. \<open>groups_of\<close>
  is the collection of the groups, \<open>group_by\<close> the groups in the order of the plan.
\<close>

definition groups_of :: "('a \<Rightarrow> 'k) \<Rightarrow> 'a list \<Rightarrow> ('k \<times> 'a list) list" where
  "groups_of key rows = map (\<lambda>k. (k, filter (\<lambda>r. key r = k) rows)) (remdups (map key rows))"

definition group_by :: "('k \<times> 'a list) plan \<Rightarrow> ('a \<Rightarrow> 'k) \<Rightarrow> 'a list \<Rightarrow> ('k \<times> 'a list) list" where
  "group_by plan key rows = arranged plan (groups_of key rows)"

text \<open>
  \<open>ORDER BY e DESC\<close> on a nullable rational: PostgreSQL puts NULL first when descending.
  The rows arrive in the order of the plan and are sorted by the key, so that rows with
  equal keys can come out in any order.
\<close>

definition order_by_desc :: "'a plan \<Rightarrow> ('a \<Rightarrow> rat nullable) \<Rightarrow> 'a list \<Rightarrow> 'a list" where
  "order_by_desc plan key rows = sort_key (\<lambda>r. map_option uminus (key r)) (arranged plan rows)"

section \<open>The tables\<close>

text \<open>
  Rows of the schema (shared/schema.ts): the primary key of each table, the columns that
  the queries below read, and for the tables that no query reads a few columns of
  payload. All columns are \<open>NOT NULL\<close>, and a row is taken to fit the types of its
  columns.
\<close>

type_synonym timestamp = nat

record Customer =
  c_customerId :: string
  c_firstName :: string
  c_lastName :: string
  c_nationalId :: string
  c_primaryBranch :: string
  c_region :: string

record Branch =
  b_branchId :: string
  b_branchName :: string
  b_region :: string

record Loan =
  l_loanId :: string
  l_customerId :: string
  l_branchId :: string
  l_amount :: rat
  l_loanStatus :: string

record DailyBranchPerformance =
  d_id :: string
  d_branchId :: string
  d_recruitedToday :: int
  d_disbursedAmountKsh :: rat
  d_dailyDuesKsh :: rat
  d_collectedKsh :: rat
  d_arrearsNewKsh :: rat
  d_parPercent :: rat
  d_dailyTargetKsh :: rat

record FraudSignal =
  f_customerId :: string
  f_syntheticCustomerScore :: rat

record AiCustomerFeatures =
  a_customerId :: string
  a_riskScore0100 :: rat
  a_defaultProb :: rat

record Officer =
  o_officerId :: string
  o_name :: string
  o_branchId :: string
  o_role :: string

record Repayment =
  r_id :: string
  r_loanId :: string
  r_customerId :: string
  r_branchId :: string
  r_amountPaid :: rat
  r_status :: string

record MonthlyBranchSummary =
  ms_id :: string
  ms_branchId :: string
  ms_month :: string
  ms_collectedMonthlyKsh :: rat

record OfficerPerformance =
  op_id :: string
  op_officerId :: string
  op_branchId :: string
  op_month :: string
  op_loansHandled :: int

record store =
  customers :: "Customer list"
  branches :: "Branch list"
  officers :: "Officer list"
  loans :: "Loan list"
  repayments :: "Repayment list"
  dailyBranchPerformance :: "DailyBranchPerformance list"
  monthlyBranchSummary :: "MonthlyBranchSummary list"
  officerPerformance :: "OfficerPerformance list"
  fraudSignals :: "FraudSignal list"
  aiCustomerFeatures :: "AiCustomerFeatures list"

definition empty_store :: store where
  "empty_store =
     \<lparr>customers = [], branches = [], officers = [], loans = [], repayments = [],
      dailyBranchPerformance = [], monthlyBranchSummary = [], officerPerformance = [],
      fraudSignals = [], aiCustomerFeatures = []\<rparr>"

section \<open>The dashboard summary\<close>

record TrendData =
  labels :: "string list"
  disbursements :: "int list"
  collections :: "int list"

record TopBranch =
  tb_branchId :: string
  tb_branchName :: string
  tb_region :: string
  tb_disbursedAmount :: rat
  tb_collectionRate :: "rat nullable"

record Alert =
  al_customerId :: string
  al_customerName :: string
  al_type :: string
  al_severity :: string
  al_timestamp :: timestamp

record DashboardMetrics =
  totalDisbursed :: rat
  totalDisbursedChange :: rat
  collectionRate :: rat
  collectionRateChange :: rat
  totalArrears :: rat
  totalArrearsChange :: rat
  parRate :: rat
  parRateChange :: rat
  activeCustomers :: nat
  activeLoans :: nat
  topPerformingBranches :: "TopBranch list"
  recentAlerts :: "Alert list"
  trendData :: TrendData

record DisbursedResult =
  dr_total :: rat
  dr_count :: nat

record CollectionResult =
  cr_totalDues :: rat
  cr_totalCollected :: rat
  cr_totalArrears :: rat
  cr_avgPar :: rat

text \<open>
  \<^verbatim>\<open>SELECT COALESCE(SUM(CAST(amount AS DECIMAL)), 0), COUNT(*) FROM loans
  WHERE loan_status = 'Active'\<close>. An aggregate query without \<open>GROUP BY\<close> returns one row.
\<close>

definition disbursedResult :: "store \<Rightarrow> DisbursedResult list" where
  "disbursedResult s =
     (let rows = filter (\<lambda>l. l_loanStatus l = ''Active'') (loans s)
      in [\<lparr>dr_total = coalesce (sql_sum (map (\<lambda>l. Some (l_amount l)) rows)) 0,
            dr_count = length rows\<rparr>])"

definition collectionResult :: "store \<Rightarrow> CollectionResult list" where
  "collectionResult s =
     (let rows = dailyBranchPerformance s
      in [\<lparr>cr_totalDues = coalesce (sql_sum (map (\<lambda>d. Some (d_dailyDuesKsh d)) rows)) 0,
            cr_totalCollected = coalesce (sql_sum (map (\<lambda>d. Some (d_collectedKsh d)) rows)) 0,
            cr_totalArrears = coalesce (sql_sum (map (\<lambda>d. Some (d_arrearsNewKsh d)) rows)) 0,
            cr_avgPar = coalesce (sql_avg (map (\<lambda>d. Some (d_parPercent d)) rows)) 0\<rparr>])"

text \<open>
  The top branches: branches left-joined with their daily rows, grouped by branch,
  ordered by the collection-rate expression descending, the first ten. The \<open>ORDER BY\<close>
  expression is the text of the selected \<open>collectionRate\<close>, so the model orders by
  that column. The order of the groups before the sort is the plan's.
\<close>

definition topBranchRow ::
  "(string \<times> string \<times> string) \<times> (Branch \<times> DailyBranchPerformance option) list
   \<Rightarrow> error + TopBranch" where
  "topBranchRow g =
     (case g of ((bid, bname, breg), rows) \<Rightarrow>
        (let ds = map snd rows
         in case collectionRateCase (sql_sum (map (map_option d_dailyDuesKsh) ds))
                                    (sql_sum (map (map_option d_collectedKsh) ds)) of
              Inl e \<Rightarrow> Inl e
            | Inr rate \<Rightarrow>
                Inr \<lparr>tb_branchId = bid, tb_branchName = bname, tb_region = breg,
                     tb_disbursedAmount =
                       coalesce (sql_sum (map (map_option d_disbursedAmountKsh) ds)) 0,
                     tb_collectionRate = rate\<rparr>))"

definition topBranchGroups ::
  "store \<Rightarrow> ((string \<times> string \<times> string) \<times> (Branch \<times> DailyBranchPerformance option) list) list" where
  "topBranchGroups s =
     groups_of (\<lambda>(b, d). (b_branchId b, b_branchName b, b_region b))
       (left_join (branches s) (dailyBranchPerformance s) (\<lambda>b d. b_branchId b = d_branchId d))"

definition topBranches :: "store \<Rightarrow> TopBranch plan \<Rightarrow> error + TopBranch list" where
  "topBranches s plan =
     (case sql_rows (map topBranchRow (topBranchGroups s)) of
        Inl e \<Rightarrow> Inl e
      | Inr rows \<Rightarrow> Inr (take 10 (order_by_desc plan tb_collectionRate rows)))"

text \<open>
  The recent alerts: customers joined with their AI features, risk score at least 40,
  ordered by risk score descending, the first ten. \<open>NOW()\<close> is the clock reading
  \<open>now\<close> at the time of the call.
\<close>

definition severity :: "rat \<Rightarrow> string" where
  "severity score = (if score \<ge> 70 then ''high'' else if score \<ge> 40 then ''medium'' else ''low'')"

definition customerName :: "Customer \<Rightarrow> string" where
  "customerName c = c_firstName c @ '' '' @ c_lastName c"

definition customersWithFeatures :: "store \<Rightarrow> (Customer \<times> AiCustomerFeatures) list" where
  "customersWithFeatures s =
     inner_join (customers s) (aiCustomerFeatures s) (\<lambda>c a. c_customerId c = a_customerId a)"

definition recentAlertsQuery ::
  "store \<Rightarrow> (Customer \<times> AiCustomerFeatures) plan \<Rightarrow> timestamp \<Rightarrow> Alert list" where
  "recentAlertsQuery s plan now =
     map (\<lambda>(c, a). \<lparr>al_customerId = c_customerId c, al_customerName = customerName c,
                      al_type = ''Fraud Detection'', al_severity = severity (a_riskScore0100 a),
                      al_timestamp = now\<rparr>)
       (take 10
          (order_by_desc plan (\<lambda>(c, a). Some (a_riskScore0100 a))
             (filter (\<lambda>(c, a). a_riskScore0100 a \<ge> 40) (customersWithFeatures s))))"

definition trendDataConst :: TrendData where
  "trendDataConst =
     \<lparr>labels = [''Mon'', ''Tue'', ''Wed'', ''Thu'', ''Fri'', ''Sat'', ''Sun''],
      disbursements = [850000, 920000, 780000, 1100000, 950000, 870000, 990000],
      collections = [720000, 810000, 690000, 950000, 850000, 780000, 890000]\<rparr>"

text \<open>
  \<open>getDashboardMetrics\<close>. Reading \<open>result[0]\<close> of an empty result would raise a
  TypeError at the property access; the ratio is JavaScript's, guarded by the
  comparison with zero. The two plans are those of the top-branches query and of the
  alerts query.
\<close>

definition getDashboardMetrics ::
  "store \<Rightarrow> TopBranch plan \<Rightarrow> (Customer \<times> AiCustomerFeatures) plan \<Rightarrow> timestamp
   \<Rightarrow> error + DashboardMetrics" where
  "getDashboardMetrics s topPlan alertPlan now =
     (case collectionResult s of
        [] \<Rightarrow> Inl TypeError
      | cr # _ \<Rightarrow>
         (let rate = (if cr_totalDues cr > 0
                      then (cr_totalCollected cr / cr_totalDues cr) * 100 else 0)
          in case topBranches s topPlan of
               Inl e \<Rightarrow> Inl e
             | Inr ranked \<Rightarrow>
                (let alerts = recentAlertsQuery s alertPlan now;
                     customerCount = [length (customers s)];
                     loanCount = [length (filter (\<lambda>l. l_loanStatus l = ''Active'') (loans s))]
                 in case (disbursedResult s, customerCount, loanCount) of
                      (dr # _, cc # _, lc # _) \<Rightarrow>
                        Inr \<lparr>totalDisbursed = dr_total dr,
                             totalDisbursedChange = 125 / 10,
                             collectionRate = rate,
                             collectionRateChange = 32 / 10,
                             totalArrears = cr_totalArrears cr,
                             totalArrearsChange = - (51 / 10),
                             parRate = cr_avgPar cr,
                             parRateChange = - (23 / 10),
                             activeCustomers = cc,
                             activeLoans = lc,
                             topPerformingBranches = ranked,
                             recentAlerts = alerts,
                             trendData = trendDataConst\<rparr>
                    | _ \<Rightarrow> Inl TypeError)))"

section \<open>Branch performance\<close>

record BranchPerformanceRow =
  bp_branchId :: string
  bp_branchName :: string
  bp_region :: string
  bp_dailyTarget :: "rat nullable"
  bp_dailyCollected :: "rat nullable"
  bp_disbursedAmount :: "rat nullable"
  bp_arrearsAmount :: "rat nullable"
  bp_parPercent :: "rat nullable"
  bp_collectionRate :: "rat nullable"
  bp_recruitedToday :: "int nullable"

text \<open>The select list, which the two branches of \<open>getBranchPerformance\<close> share word for word.\<close>

definition branchPerformanceRow ::
  "(string \<times> string \<times> string) \<times> (DailyBranchPerformance \<times> Branch) list
   \<Rightarrow> error + BranchPerformanceRow" where
  "branchPerformanceRow g =
     (case g of ((bid, bname, breg), rows) \<Rightarrow>
        (let ds = map fst rows
         in case collectionRateCase (sql_sum (map (\<lambda>d. Some (d_dailyDuesKsh d)) ds))
                                    (sql_sum (map (\<lambda>d. Some (d_collectedKsh d)) ds)) of
              Inl e \<Rightarrow> Inl e
            | Inr rate \<Rightarrow>
                Inr \<lparr>bp_branchId = bid, bp_branchName = bname, bp_region = breg,
                     bp_dailyTarget = sql_avg (map (\<lambda>d. Some (d_dailyTargetKsh d)) ds),
                     bp_dailyCollected = sql_avg (map (\<lambda>d. Some (d_collectedKsh d)) ds),
                     bp_disbursedAmount = sql_sum (map (\<lambda>d. Some (d_disbursedAmountKsh d)) ds),
                     bp_arrearsAmount = sql_sum (map (\<lambda>d. Some (d_arrearsNewKsh d)) ds),
                     bp_parPercent = sql_avg (map (\<lambda>d. Some (d_parPercent d)) ds),
                     bp_collectionRate = rate,
                     bp_recruitedToday = sql_sum (map (\<lambda>d. Some (d_recruitedToday d)) ds)\<rparr>))"

definition branchPerformanceJoin :: "store \<Rightarrow> (DailyBranchPerformance \<times> Branch) list" where
  "branchPerformanceJoin s =
     inner_join (dailyBranchPerformance s) (branches s) (\<lambda>d b. d_branchId d = b_branchId b)"

definition branchPerformanceKey :: "DailyBranchPerformance \<times> Branch \<Rightarrow> string \<times> string \<times> string" where
  "branchPerformanceKey r = (case r of (d, b) \<Rightarrow> (d_branchId d, b_branchName b, b_region b))"

text \<open>The time range is accepted and not used.\<close>

type_synonym branchPerformanceGroup =
  "(string \<times> string \<times> string) \<times> (DailyBranchPerformance \<times> Branch) list"

definition getBranchPerformance ::
  "store \<Rightarrow> branchPerformanceGroup plan \<Rightarrow> string \<Rightarrow> string
   \<Rightarrow> error + BranchPerformanceRow list" where
  "getBranchPerformance s plan branchId timeRange =
     (if branchId = ''all''
      then sql_rows (map branchPerformanceRow
                       (group_by plan branchPerformanceKey (branchPerformanceJoin s)))
      else sql_rows (map branchPerformanceRow
                       (group_by plan branchPerformanceKey
                          (filter (\<lambda>(d, b). d_branchId d = branchId) (branchPerformanceJoin s)))))"

section \<open>Regional metrics\<close>

record RegionalRow =
  rg_region :: string
  rg_totalBranches :: nat
  rg_totalDisbursed :: rat
  rg_totalCollected :: rat
  rg_collectionRate :: "rat nullable"
  rg_avgParPercent :: rat
  rg_activeCustomers :: nat

text \<open>
  The \<open>FROM\<close> clause: branches left-joined with their daily rows and left-joined with
  the customers whose primary branch they are. Both joins are on the branch, so a
  branch with daily rows and customers contributes one row per pair of them.
\<close>

definition regionalJoin ::
  "store \<Rightarrow> ((Branch \<times> DailyBranchPerformance option) \<times> Customer option) list" where
  "regionalJoin s =
     left_join
       (left_join (branches s) (dailyBranchPerformance s) (\<lambda>b d. b_branchId b = d_branchId d))
       (customers s)
       (\<lambda>(b, d) c. b_branchId b = c_primaryBranch c)"

type_synonym regionalJoinRow = "(Branch \<times> DailyBranchPerformance option) \<times> Customer option"

definition regionalKey :: "regionalJoinRow \<Rightarrow> string" where
  "regionalKey r = (case r of ((b, d), c) \<Rightarrow> b_region b)"

definition regionalDaily :: "regionalJoinRow \<Rightarrow> DailyBranchPerformance option" where
  "regionalDaily r = (case r of ((b, d), c) \<Rightarrow> d)"

definition regionalRow :: "string \<times> regionalJoinRow list \<Rightarrow> error + RegionalRow" where
  "regionalRow g =
     (case g of (reg, rows) \<Rightarrow>
        (let ds = map regionalDaily rows
         in case collectionRateCase (sql_sum (map (map_option d_dailyDuesKsh) ds))
                                    (sql_sum (map (map_option d_collectedKsh) ds)) of
              Inl e \<Rightarrow> Inl e
            | Inr rate \<Rightarrow>
                Inr \<lparr>rg_region = reg,
                     rg_totalBranches =
                       sql_count_distinct (map (\<lambda>((b, d), c). Some (b_branchId b)) rows),
                     rg_totalDisbursed =
                       coalesce (sql_sum (map (map_option d_disbursedAmountKsh) ds)) 0,
                     rg_totalCollected =
                       coalesce (sql_sum (map (map_option d_collectedKsh) ds)) 0,
                     rg_collectionRate = rate,
                     rg_avgParPercent = coalesce (sql_avg (map (map_option d_parPercent) ds)) 0,
                     rg_activeCustomers =
                       sql_count_distinct (map (\<lambda>((b, d), c). map_option c_customerId c) rows)\<rparr>))"

definition getRegionalMetrics ::
  "store \<Rightarrow> (string \<times> regionalJoinRow list) plan \<Rightarrow> error + RegionalRow list" where
  "getRegionalMetrics s plan =
     sql_rows (map regionalRow (group_by plan regionalKey (regionalJoin s)))"

text \<open>The daily rows that belong to the branches of a region, each once.\<close>

definition regionDailyRows :: "store \<Rightarrow> string \<Rightarrow> DailyBranchPerformance list" where
  "regionDailyRows s reg =
     filter (\<lambda>d. d_branchId d \<in> set (map b_branchId (filter (\<lambda>b. b_region b = reg) (branches s))))
       (dailyBranchPerformance s)"

section \<open>Fraud cases\<close>

record FraudCase =
  fc_customerId :: string
  fc_customerName :: string
  fc_nationalId :: string
  fc_riskScore :: rat
  fc_defaultProb :: rat
  fc_fraudFlags :: "string list"
  fc_mlConfidence :: rat
  fc_primaryBranch :: string
  fc_region :: string
  fc_lastLoanDate :: timestamp

type_synonym fraudJoinRow = "(Customer \<times> AiCustomerFeatures) \<times> FraudSignal option"

definition fraudJoin :: "store \<Rightarrow> fraudJoinRow list" where
  "fraudJoin s =
     left_join (customersWithFeatures s) (fraudSignals s)
       (\<lambda>(c, a) f. c_customerId c = f_customerId f)"

definition riskOf :: "fraudJoinRow \<Rightarrow> rat" where
  "riskOf r = (case r of ((c, a), f) \<Rightarrow> a_riskScore0100 a)"

definition fraudCaseRow :: "timestamp \<Rightarrow> fraudJoinRow \<Rightarrow> FraudCase" where
  "fraudCaseRow now r =
     (case r of ((c, a), f) \<Rightarrow>
        \<lparr>fc_customerId = c_customerId c, fc_customerName = customerName c,
         fc_nationalId = c_nationalId c, fc_riskScore = a_riskScore0100 a,
         fc_defaultProb = a_defaultProb a, fc_fraudFlags = [],
         fc_mlConfidence = 85 / 100, fc_primaryBranch = c_primaryBranch c,
         fc_region = c_region c, fc_lastLoanDate = now\<rparr>)"

text \<open>
  The filter is optional (\<open>None\<close> is \<open>undefined\<close>); a string other than the three
  band names adds no \<open>WHERE\<close> clause.
\<close>

definition fraudWhere :: "string option \<Rightarrow> fraudJoinRow list \<Rightarrow> fraudJoinRow list" where
  "fraudWhere riskFilter rows =
     (if riskFilter = Some ''high'' then filter (\<lambda>r. riskOf r \<ge> 70) rows
      else if riskFilter = Some ''medium'' then filter (\<lambda>r. riskOf r \<ge> 40 \<and> riskOf r < 70) rows
      else if riskFilter = Some ''low'' then filter (\<lambda>r. riskOf r < 40) rows
      else rows)"

definition getFraudCases ::
  "store \<Rightarrow> fraudJoinRow plan \<Rightarrow> timestamp \<Rightarrow> string option \<Rightarrow> FraudCase list" where
  "getFraudCases s plan now riskFilter =
     map (fraudCaseRow now)
       (take 50 (order_by_desc plan (\<lambda>r. Some (riskOf r)) (fraudWhere riskFilter (fraudJoin s))))"

section \<open>The fraud-cases route\<close>

text \<open>
  \<open>GET /api/fraud/cases\<close> (server/routes.ts). A query parameter is absent, a string, or
  an array or object (\<open>QOther\<close>), which is truthy and equal to no string. The handler's
  result is its response together with the calls it made to the storage layer. The
  handler answers a failure of the storage call with status 500; \<open>getFraudCases\<close> has
  no failure in this model.
\<close>

datatype query_value = Undefined | QString string | QOther

datatype response = Json200 "FraudCase list" | Status400 string

datatype storage_call = GetFraudCases "string option"

definition validFilters :: "string list" where
  "validFilters = [''all'', ''high'', ''medium'', ''low'']"

text \<open>\<^verbatim>\<open>(req.query.riskFilter as string) || "all"\<close>: undefined and the empty string are falsy.\<close>

definition riskFilterOrAll :: "query_value \<Rightarrow> query_value" where
  "riskFilterOrAll q =
     (case q of
        Undefined \<Rightarrow> QString ''all''
      | QString str \<Rightarrow> if str = [] then QString ''all'' else QString str
      | QOther \<Rightarrow> QOther)"

definition fraudCasesRoute ::
  "store \<Rightarrow> fraudJoinRow plan \<Rightarrow> timestamp \<Rightarrow> query_value \<Rightarrow> response \<times> storage_call list" where
  "fraudCasesRoute s plan now q =
     (case riskFilterOrAll q of
        QString riskFilter \<Rightarrow>
          if riskFilter \<notin> set validFilters
          then (Status400 ''Invalid risk filter. Must be one of: all, high, medium, low'', [])
          else (let arg = (if riskFilter \<noteq> ''all'' then Some riskFilter else None)
                in (Json200 (getFraudCases s plan now arg), [GetFraudCases arg]))
      | _ \<Rightarrow> (Status400 ''Invalid risk filter. Must be one of: all, high, medium, low'', []))"

section \<open>Bulk inserts\<close>

text \<open>
  \<^verbatim>\<open>INSERT ... ON CONFLICT DO NOTHING\<close>: the rows are inserted in order, and a row
  whose primary key is already in the table (stored before, or inserted earlier by the
  same statement) is skipped.
\<close>

fun on_conflict_do_nothing :: "('r \<Rightarrow> 'k) \<Rightarrow> 'r list \<Rightarrow> 'r list \<Rightarrow> 'r list" where
  "on_conflict_do_nothing key table [] = table"
| "on_conflict_do_nothing key table (r # rs) =
     on_conflict_do_nothing key (if key r \<in> set (map key table) then table else table @ [r]) rs"

text \<open>Tables whose primary key is a column of the inserted row.\<close>

definition bulkInsertCustomers :: "store \<Rightarrow> Customer list \<Rightarrow> store" where
  "bulkInsertCustomers s customerList =
     (if length customerList = 0 then s
      else s\<lparr>customers := on_conflict_do_nothing c_customerId (customers s) customerList\<rparr>)"

definition bulkInsertBranches :: "store \<Rightarrow> Branch list \<Rightarrow> store" where
  "bulkInsertBranches s branchList =
     (if length branchList = 0 then s
      else s\<lparr>branches := on_conflict_do_nothing b_branchId (branches s) branchList\<rparr>)"

definition bulkInsertOfficers :: "store \<Rightarrow> Officer list \<Rightarrow> store" where
  "bulkInsertOfficers s officerList =
     (if length officerList = 0 then s
      else s\<lparr>officers := on_conflict_do_nothing o_officerId (officers s) officerList\<rparr>)"

definition bulkInsertLoans :: "store \<Rightarrow> Loan list \<Rightarrow> store" where
  "bulkInsertLoans s loanList =
     (if length loanList = 0 then s
      else s\<lparr>loans := on_conflict_do_nothing l_loanId (loans s) loanList\<rparr>)"

definition bulkInsertFraudSignals :: "store \<Rightarrow> FraudSignal list \<Rightarrow> store" where
  "bulkInsertFraudSignals s signalList =
     (if length signalList = 0 then s
      else s\<lparr>fraudSignals := on_conflict_do_nothing f_customerId (fraudSignals s) signalList\<rparr>)"

definition bulkInsertAiFeatures :: "store \<Rightarrow> AiCustomerFeatures list \<Rightarrow> store" where
  "bulkInsertAiFeatures s featuresList =
     (if length featuresList = 0 then s
      else s\<lparr>aiCustomerFeatures :=
               on_conflict_do_nothing a_customerId (aiCustomerFeatures s) featuresList\<rparr>)"

text \<open>
  Tables whose primary key is the column \<open>id\<close> with the default
  \<open>gen_random_uuid()\<close>. The insert types of the three performance tables omit
  \<open>id\<close>, so the database generates it for every row; a repayment may bring its own.
  The generated values are an input of the model: \<open>uuid i\<close> is the value generated for
  the \<open>i\<close>-th row of the statement.
\<close>

record InsertDailyBranchPerformance =
  di_branchId :: string
  di_recruitedToday :: int
  di_disbursedAmountKsh :: rat
  di_dailyDuesKsh :: rat
  di_collectedKsh :: rat
  di_arrearsNewKsh :: rat
  di_parPercent :: rat
  di_dailyTargetKsh :: rat

record InsertMonthlyBranchSummary =
  mi_branchId :: string
  mi_month :: string
  mi_collectedMonthlyKsh :: rat

record InsertOfficerPerformance =
  oi_officerId :: string
  oi_branchId :: string
  oi_month :: string
  oi_loansHandled :: int

record InsertRepayment =
  ri_id :: "string option"
  ri_loanId :: string
  ri_customerId :: string
  ri_branchId :: string
  ri_amountPaid :: rat
  ri_status :: string

definition dailyRow :: "string \<Rightarrow> InsertDailyBranchPerformance \<Rightarrow> DailyBranchPerformance" where
  "dailyRow uuid x =
     \<lparr>d_id = uuid, d_branchId = di_branchId x, d_recruitedToday = di_recruitedToday x,
      d_disbursedAmountKsh = di_disbursedAmountKsh x, d_dailyDuesKsh = di_dailyDuesKsh x,
      d_collectedKsh = di_collectedKsh x, d_arrearsNewKsh = di_arrearsNewKsh x,
      d_parPercent = di_parPercent x, d_dailyTargetKsh = di_dailyTargetKsh x\<rparr>"

definition monthlyRow :: "string \<Rightarrow> InsertMonthlyBranchSummary \<Rightarrow> MonthlyBranchSummary" where
  "monthlyRow uuid x =
     \<lparr>ms_id = uuid, ms_branchId = mi_branchId x, ms_month = mi_month x,
      ms_collectedMonthlyKsh = mi_collectedMonthlyKsh x\<rparr>"

definition officerPerformanceRow :: "string \<Rightarrow> InsertOfficerPerformance \<Rightarrow> OfficerPerformance" where
  "officerPerformanceRow uuid x =
     \<lparr>op_id = uuid, op_officerId = oi_officerId x, op_branchId = oi_branchId x,
      op_month = oi_month x, op_loansHandled = oi_loansHandled x\<rparr>"

definition repaymentRow :: "string \<Rightarrow> InsertRepayment \<Rightarrow> Repayment" where
  "repaymentRow uuid x =
     \<lparr>r_id = (case ri_id x of None \<Rightarrow> uuid | Some given \<Rightarrow> given), r_loanId = ri_loanId x,
      r_customerId = ri_customerId x, r_branchId = ri_branchId x,
      r_amountPaid = ri_amountPaid x, r_status = ri_status x\<rparr>"

definition with_defaults :: "(string \<Rightarrow> 'i \<Rightarrow> 'r) \<Rightarrow> (nat \<Rightarrow> string) \<Rightarrow> 'i list \<Rightarrow> 'r list" where
  "with_defaults row uuid xs = map (\<lambda>(i, x). row (uuid i) x) (enumerate 0 xs)"

definition bulkInsertDailyPerformance ::
  "store \<Rightarrow> (nat \<Rightarrow> string) \<Rightarrow> InsertDailyBranchPerformance list \<Rightarrow> store" where
  "bulkInsertDailyPerformance s uuid performanceList =
     (if length performanceList = 0 then s
      else s\<lparr>dailyBranchPerformance :=
               on_conflict_do_nothing d_id (dailyBranchPerformance s)
                 (with_defaults dailyRow uuid performanceList)\<rparr>)"

definition bulkInsertMonthlyPerformance ::
  "store \<Rightarrow> (nat \<Rightarrow> string) \<Rightarrow> InsertMonthlyBranchSummary list \<Rightarrow> store" where
  "bulkInsertMonthlyPerformance s uuid performanceList =
     (if length performanceList = 0 then s
      else s\<lparr>monthlyBranchSummary :=
               on_conflict_do_nothing ms_id (monthlyBranchSummary s)
                 (with_defaults monthlyRow uuid performanceList)\<rparr>)"

definition bulkInsertOfficerPerformance ::
  "store \<Rightarrow> (nat \<Rightarrow> string) \<Rightarrow> InsertOfficerPerformance list \<Rightarrow> store" where
  "bulkInsertOfficerPerformance s uuid performanceList =
     (if length performanceList = 0 then s
      else s\<lparr>officerPerformance :=
               on_conflict_do_nothing op_id (officerPerformance s)
                 (with_defaults officerPerformanceRow uuid performanceList)\<rparr>)"

definition bulkInsertRepayments ::
  "store \<Rightarrow> (nat \<Rightarrow> string) \<Rightarrow> InsertRepayment list \<Rightarrow> store" where
  "bulkInsertRepayments s uuid repaymentList =
     (if length repaymentList = 0 then s
      else s\<lparr>repayments :=
               on_conflict_do_nothing r_id (repayments s)
                 (with_defaults repaymentRow uuid repaymentList)\<rparr>)"

section \<open>The collection rate as the specification words it\<close>

text \<open>
  computeCollectionRate(totalDues, totalCollected): \<open>totalCollected / totalDues * 100\<close>
  if \<open>totalDues > 0\<close>, else \<open>0\<close>. This definition follows the specification; the
  code has no such function and repeats the expression in each query.
\<close>

definition spec_computeCollectionRate :: "rat \<Rightarrow> rat \<Rightarrow> rat" where
  "spec_computeCollectionRate totalDues totalCollected =
     (if totalDues > 0 then totalCollected / totalDues * 100 else 0)"

section \<open>Example rows and stores\<close>

definition mkBranch :: "string \<Rightarrow> string \<Rightarrow> Branch" where
  "mkBranch bid reg = \<lparr>b_branchId = bid, b_branchName = bid @ '' branch'', b_region = reg\<rparr>"

text \<open>A daily row of a branch: disbursed, dues, collected and PAR percent as given.\<close>

definition mkDaily :: "string \<Rightarrow> string \<Rightarrow> rat \<Rightarrow> rat \<Rightarrow> rat \<Rightarrow> rat \<Rightarrow> DailyBranchPerformance" where
  "mkDaily uuid bid disbursed dues collected par =
     \<lparr>d_id = uuid, d_branchId = bid, d_recruitedToday = 1, d_disbursedAmountKsh = disbursed,
      d_dailyDuesKsh = dues, d_collectedKsh = collected, d_arrearsNewKsh = 0,
      d_parPercent = par, d_dailyTargetKsh = dues\<rparr>"

definition mkCustomer :: "string \<Rightarrow> string \<Rightarrow> string \<Rightarrow> Customer" where
  "mkCustomer cid bid reg =
     \<lparr>c_customerId = cid, c_firstName = ''First'', c_lastName = ''Last'',
      c_nationalId = ''N'' @ cid, c_primaryBranch = bid, c_region = reg\<rparr>"

definition mkFeatures :: "string \<Rightarrow> rat \<Rightarrow> AiCustomerFeatures" where
  "mkFeatures cid score =
     \<lparr>a_customerId = cid, a_riskScore0100 = score, a_defaultProb = score / 100\<rparr>"

text \<open>
  Branch B1 with two daily rows, dues 1000 with 800 collected and dues 2000 with 1900
  collected.
\<close>

definition store_one_branch :: store where
  "store_one_branch =
     empty_store\<lparr>branches := [mkBranch ''B1'' ''North''],
       dailyBranchPerformance :=
         [mkDaily ''d1'' ''B1'' 5000 1000 800 10, mkDaily ''d2'' ''B1'' 7000 2000 1900 20]\<rparr>"

text \<open>
  One region with one branch, one daily row (disbursed 100, dues 100, collected 80)
  and two customers of that branch.
\<close>

definition store_two_customers :: store where
  "store_two_customers =
     empty_store\<lparr>branches := [mkBranch ''B1'' ''North''],
       dailyBranchPerformance := [mkDaily ''d1'' ''B1'' 100 100 80 10],
       customers := [mkCustomer ''C1'' ''B1'' ''North'', mkCustomer ''C2'' ''B1'' ''North'']\<rparr>"

text \<open>
  One region with two branches, a daily row each (PAR 10 and PAR 40); the first branch
  has two customers, the second none.
\<close>

definition store_uneven_customers :: store where
  "store_uneven_customers =
     empty_store\<lparr>branches := [mkBranch ''B1'' ''North'', mkBranch ''B2'' ''North''],
       dailyBranchPerformance :=
         [mkDaily ''d1'' ''B1'' 100 100 80 10, mkDaily ''d2'' ''B2'' 100 100 80 40],
       customers := [mkCustomer ''C1'' ''B1'' ''North'', mkCustomer ''C2'' ''B1'' ''North'']\<rparr>"



text \<open>One customer with a risk score of 80.\<close>

definition store_one_risky :: store where
  "store_one_risky =
     empty_store\<lparr>customers := [mkCustomer ''C1'' ''B1'' ''North''],
       aiCustomerFeatures := [mkFeatures ''C1'' 80]\<rparr>"

text \<open>
  Fifty-one customers C00 to C50 with AI features: a risk score of 80 for the first
  fifty, of 10 for the last.
\<close>

definition customerNo :: "nat \<Rightarrow> string" where
  "customerNo i = ''C'' @ [char_of (48 + i div 10), char_of (48 + i mod 10)]"

definition store_51_customers :: store where
  "store_51_customers =
     empty_store\<lparr>customers := map (\<lambda>i. mkCustomer (customerNo i) ''B1'' ''North'') [0..<51],
       aiCustomerFeatures :=
         map (\<lambda>i. mkFeatures (customerNo i) (if i < 50 then 80 else 10)) [0..<51]\<rparr>"

text \<open>Three customers, one in each risk band.\<close>

definition store_three_bands :: store where
  "store_three_bands =
     empty_store\<lparr>customers :=
         [mkCustomer ''C1'' ''B1'' ''North'', mkCustomer ''C2'' ''B1'' ''North'',
          mkCustomer ''C3'' ''B1'' ''North''],
       aiCustomerFeatures := [mkFeatures ''C1'' 10, mkFeatures ''C2'' 80, mkFeatures ''C3'' 50]\<rparr>"

text \<open>A daily row as the loader passes it to the bulk insert, without an identifier.\<close>

definition sampleDaily :: InsertDailyBranchPerformance where
  "sampleDaily =
     \<lparr>di_branchId = ''B1'', di_recruitedToday = 2, di_disbursedAmountKsh = 100,
      di_dailyDuesKsh = 100, di_collectedKsh = 80, di_arrearsNewKsh = 0, di_parPercent = 10,
      di_dailyTargetKsh = 100\<rparr>"

definition sampleMonthly :: InsertMonthlyBranchSummary where
  "sampleMonthly = \<lparr>mi_branchId = ''B1'', mi_month = ''2024-01'', mi_collectedMonthlyKsh = 2400\<rparr>"

definition sampleOfficerPerformance :: InsertOfficerPerformance where
  "sampleOfficerPerformance =
     \<lparr>oi_officerId = ''OFF001'', oi_branchId = ''B1'', oi_month = ''2024-01'',
      oi_loansHandled = 12\<rparr>"

text \<open>
  One region with two branches: B1 with ten customers and a daily row of dues 100 with
  150 collected, B2 without customers and a daily row of dues 200 with nothing
  collected.
\<close>

definition store_overcollected :: store where
  "store_overcollected =
     empty_store\<lparr>branches := [mkBranch ''B1'' ''North'', mkBranch ''B2'' ''North''],
       dailyBranchPerformance :=
         [mkDaily ''d1'' ''B1'' 100 100 150 10, mkDaily ''d2'' ''B2'' 100 200 0 10],
       customers :=
         [mkCustomer ''C00'' ''B1'' ''North'', mkCustomer ''C01'' ''B1'' ''North'',
          mkCustomer ''C02'' ''B1'' ''North'', mkCustomer ''C03'' ''B1'' ''North'',
          mkCustomer ''C04'' ''B1'' ''North'', mkCustomer ''C05'' ''B1'' ''North'',
          mkCustomer ''C06'' ''B1'' ''North'', mkCustomer ''C07'' ''B1'' ''North'',
          mkCustomer ''C08'' ''B1'' ''North'', mkCustomer ''C09'' ''B1'' ''North'']\<rparr>"

text \<open>
  A repayment as the loader passes it to the bulk insert, without an identifier, and one
  that brings its identifier.
\<close>

definition sampleRepayment :: InsertRepayment where
  "sampleRepayment =
     \<lparr>ri_id = None, ri_loanId = ''L1'', ri_customerId = ''C1'', ri_branchId = ''B1'',
      ri_amountPaid = 500, ri_status = ''paid''\<rparr>"

definition sampleRepaymentWithId :: InsertRepayment where
  "sampleRepaymentWithId = sampleRepayment\<lparr>ri_id := Some ''r7''\<rparr>"

text \<open>A store with one row in each table that a bulk insert of the examples writes to.\<close>

definition store_with_rows :: store where
  "store_with_rows =
     empty_store\<lparr>customers := [mkCustomer ''C1'' ''B1'' ''North''],
       dailyBranchPerformance := [dailyRow ''d0'' sampleDaily],
       monthlyBranchSummary := [monthlyRow ''m0'' sampleMonthly],
       officerPerformance := [officerPerformanceRow ''p0'' sampleOfficerPerformance],
       repayments := [repaymentRow ''r0'' sampleRepayment]\<rparr>"

text \<open>Two generated identifiers, for the first and the second row of a statement.\<close>

definition sampleUuids :: "nat \<Rightarrow> string" where
  "sampleUuids i = (if i = 0 then ''u1'' else ''u2'')"

section \<open>Facts about the SQL layer\<close>

lemma non_null_Nil [simp]: "non_null [] = []"
  by (simp add: non_null_def List.map_filter_simps)

lemma non_null_Cons [simp]:
  "non_null (v # vs) = (case v of None \<Rightarrow> non_null vs | Some x \<Rightarrow> x # non_null vs)"
  by (simp add: non_null_def List.map_filter_simps split: option.splits)

lemma non_null_append [simp]: "non_null (xs @ ys) = non_null xs @ non_null ys"
  by (induction xs) (auto split: option.splits)

lemma non_null_map_Some [simp]: "non_null (map (\<lambda>x. Some (f x)) xs) = map f xs"
  by (induction xs) auto

lemma non_null_map_option: "non_null (map (map_option f) ds) = map f (non_null ds)"
  by (induction ds) (auto split: option.splits)

lemma coalesce_sql_sum: "coalesce (sql_sum vs) 0 = sum_list (non_null vs)"
  by (cases "non_null vs") (auto simp: coalesce_def sql_sum_def)

lemma coalesce_sql_avg:
  "coalesce (sql_avg vs) 0 = sum_list (non_null vs) / of_nat (length (non_null vs))"
  by (cases "non_null vs") (auto simp: coalesce_def sql_avg_def)

lemma collectionRateCase_sums:
  assumes "non_null ds = [] \<longleftrightarrow> non_null cs = []"
  shows "collectionRateCase (sql_sum ds) (sql_sum cs) =
         Inr (Some (if sum_list (non_null ds) > 0
                    then sum_list (non_null cs) / sum_list (non_null ds) * 100 else 0))"
  using assms
  by (cases "non_null ds"; cases "non_null cs")
     (auto simp: collectionRateCase_def sql_sum_def is_true_def sql_gt_def sql_div_def
        sql_mul_def)

lemma collectionRateCase_joined:
  "collectionRateCase (sql_sum (map (map_option f) ds)) (sql_sum (map (map_option g) ds)) =
   Inr (Some (if sum_list (map f (non_null ds)) > 0
              then sum_list (map g (non_null ds)) / sum_list (map f (non_null ds)) * 100
              else 0))"
  using collectionRateCase_sums [of "map (map_option f) ds" "map (map_option g) ds"]
  by (simp add: non_null_map_option)

lemma collectionRateCase_rows:
  "collectionRateCase (sql_sum (map (\<lambda>d. Some (f d)) ds)) (sql_sum (map (\<lambda>d. Some (g d)) ds)) =
   Inr (Some (if sum_list (map f ds) > 0
              then sum_list (map g ds) / sum_list (map f ds) * 100 else 0))"
  using collectionRateCase_sums [of "map (\<lambda>d. Some (f d)) ds" "map (\<lambda>d. Some (g d)) ds"]
  by simp

lemma sql_rows_all_Inr:
  "(\<And>x. x \<in> set xs \<Longrightarrow> g x = Inr (f x)) \<Longrightarrow> sql_rows (map g xs) = Inr (map f xs)"
  by (induction xs) auto

section \<open>Plans only reorder\<close>

lemma mset_arranged [simp]: "mset (arranged plan rows) = mset rows"
  by (simp add: arranged_def)

lemma set_arranged [simp]: "set (arranged plan rows) = set rows"
  using mset_arranged [of plan rows] by (metis set_mset_mset)

lemma length_arranged [simp]: "length (arranged plan rows) = length rows"
  using mset_arranged [of plan rows] by (metis size_mset)

lemma arranged_Nil [simp]: "arranged plan [] = []"
  using length_arranged [of plan "[]"] by (simp del: length_arranged)

lemma arranged_single [simp]: "arranged plan [x] = [x]"
proof -
  have "mset (arranged plan [x]) = {#x#}" by simp
  then show ?thesis by (simp only: mset_single_iff)
qed

lemma arranged_id [simp]: "arranged (\<lambda>rows. rows) rows = rows"
  by (simp add: arranged_def)

lemma set_group_by [simp]: "set (group_by plan key rows) = set (groups_of key rows)"
  by (simp add: group_by_def)

lemma mset_group_by [simp]: "mset (group_by plan key rows) = mset (groups_of key rows)"
  by (simp add: group_by_def)

lemma set_order_by_desc [simp]: "set (order_by_desc plan key rows) = set rows"
  by (simp add: order_by_desc_def)

lemma length_order_by_desc [simp]: "length (order_by_desc plan key rows) = length rows"
  by (simp add: order_by_desc_def)

lemma mset_order_by_desc [simp]: "mset (order_by_desc plan key rows) = mset rows"
  by (simp add: order_by_desc_def)

section \<open>The dashboard summary never fails\<close>

lemma topBranchRow_Inr:
  "topBranchRow ((bid, bname, breg), rows) =
   Inr \<lparr>tb_branchId = bid, tb_branchName = bname, tb_region = breg,
        tb_disbursedAmount = sum_list (map d_disbursedAmountKsh (non_null (map snd rows))),
        tb_collectionRate =
          Some (if sum_list (map d_dailyDuesKsh (non_null (map snd rows))) > 0
                then sum_list (map d_collectedKsh (non_null (map snd rows)))
                     / sum_list (map d_dailyDuesKsh (non_null (map snd rows))) * 100
                else 0)\<rparr>"
  by (simp add: topBranchRow_def collectionRateCase_joined coalesce_sql_sum
        non_null_map_option Let_def)

lemma topBranchRow_projr: "topBranchRow g = Inr (projr (topBranchRow g))"
proof -
  obtain bid bname breg rows where "g = ((bid, bname, breg), rows)"
    by (metis prod.collapse)
  then show ?thesis by (simp add: topBranchRow_Inr)
qed

lemma topBranches_Inr:
  "topBranches s plan =
   Inr (take 10 (order_by_desc plan tb_collectionRate
                   (map (\<lambda>g. projr (topBranchRow g)) (topBranchGroups s))))"
  using sql_rows_all_Inr [of "topBranchGroups s" topBranchRow "\<lambda>g. projr (topBranchRow g)"]
    topBranchRow_projr
  by (simp add: topBranches_def)

lemma getDashboardMetrics_Inr:
  "getDashboardMetrics s topPlan alertPlan now =
   Inr \<lparr>totalDisbursed =
          sum_list (map l_amount (filter (\<lambda>l. l_loanStatus l = ''Active'') (loans s))),
        totalDisbursedChange = 125 / 10,
        collectionRate =
          (if sum_list (map d_dailyDuesKsh (dailyBranchPerformance s)) > 0
           then sum_list (map d_collectedKsh (dailyBranchPerformance s))
                / sum_list (map d_dailyDuesKsh (dailyBranchPerformance s)) * 100
           else 0),
        collectionRateChange = 32 / 10,
        totalArrears = sum_list (map d_arrearsNewKsh (dailyBranchPerformance s)),
        totalArrearsChange = - (51 / 10),
        parRate = sum_list (map d_parPercent (dailyBranchPerformance s))
                  / of_nat (length (dailyBranchPerformance s)),
        parRateChange = - (23 / 10),
        activeCustomers = length (customers s),
        activeLoans = length (filter (\<lambda>l. l_loanStatus l = ''Active'') (loans s)),
        topPerformingBranches =
          take 10 (order_by_desc topPlan tb_collectionRate
                     (map (\<lambda>g. projr (topBranchRow g)) (topBranchGroups s))),
        recentAlerts = recentAlertsQuery s alertPlan now,
        trendData = trendDataConst\<rparr>"
  by (simp add: getDashboardMetrics_def collectionResult_def disbursedResult_def
      topBranches_Inr Let_def coalesce_sql_sum coalesce_sql_avg)

text \<open>
  C6. The total disbursed of the dashboard summary is the sum of the amounts of exactly
  the loans whose status is \<open>Active\<close>; with one active loan of 5000 and one completed
  loan of 9000 it is 5000.
\<close>

theorem totalDisbursed_active_loans_only:
  "(\<exists>m. getDashboardMetrics s topPlan alertPlan now = Inr m \<and>
        totalDisbursed m =
          sum_list (map l_amount (filter (\<lambda>l. l_loanStatus l = ''Active'') (loans s))))
   \<and> (\<exists>m. getDashboardMetrics
             (empty_store\<lparr>loans :=
                [\<lparr>l_loanId = ''L1'', l_customerId = ''C1'', l_branchId = ''B1'',
                  l_amount = 5000, l_loanStatus = ''Active''\<rparr>,
                 \<lparr>l_loanId = ''L2'', l_customerId = ''C1'', l_branchId = ''B1'',
                  l_amount = 9000, l_loanStatus = ''completed''\<rparr>]\<rparr>)
             topPlan alertPlan now = Inr m \<and>
        totalDisbursed m = 5000)"
  by (simp add: getDashboardMetrics_Inr)

text \<open>
  The comparison is with the literal \<open>Active\<close>: a loan stored with the status
  \<open>active\<close>, as the sample data of server/utils/data-loader.ts writes it, is not
  counted.
\<close>

lemma totalDisbursed_status_is_case_sensitive:
  "\<exists>m. getDashboardMetrics
         (empty_store\<lparr>loans :=
            [\<lparr>l_loanId = ''L1'', l_customerId = ''C1'', l_branchId = ''B1'',
              l_amount = 5000, l_loanStatus = ''active''\<rparr>]\<rparr>)
         topPlan alertPlan now = Inr m \<and>
       totalDisbursed m = 0 \<and> activeLoans m = 0"
  by (simp add: getDashboardMetrics_Inr)

section \<open>Groups of the branch and regional queries\<close>

lemma filter_unique_key:
  "distinct (map f xs) \<Longrightarrow> x \<in> set xs \<Longrightarrow> filter (\<lambda>y. f x = f y) xs = [x]"
proof (induction xs)
  case Nil
  then show ?case by simp
next
  case (Cons a xs)
  show ?case
  proof (cases "x = a")
    case True
    with Cons.prems have "\<forall>y\<in>set xs. f a \<noteq> f y" by auto
    then have "filter (\<lambda>y. f a = f y) xs = []" by (simp add: filter_empty_conv)
    with True show ?thesis by simp
  next
    case False
    with Cons.prems have xs: "x \<in> set xs" by auto
    then have "f x \<in> f ` set xs" by simp
    moreover from Cons.prems have "f a \<notin> f ` set xs" by simp
    ultimately have "f x \<noteq> f a" by metis
    with xs Cons show ?thesis by simp
  qed
qed

lemma branch_group_rows:
  assumes "distinct (map b_branchId bs)" and "b0 \<in> set bs"
  shows "map fst (filter (\<lambda>r. branchPerformanceKey r = (b_branchId b0, b_branchName b0, b_region b0))
                    (inner_join ds bs (\<lambda>d b. d_branchId d = b_branchId b))) =
         filter (\<lambda>d. d_branchId d = b_branchId b0) ds"
proof (induction ds)
  case Nil
  then show ?case by (simp add: inner_join_def)
next
  case (Cons d ds)
  have step: "inner_join (d # ds) bs (\<lambda>d b. d_branchId d = b_branchId b) =
        map (Pair d) (filter (\<lambda>b. d_branchId d = b_branchId b) bs) @
        inner_join ds bs (\<lambda>d b. d_branchId d = b_branchId b)"
    by (simp add: inner_join_def)
  show ?case
  proof (cases "d_branchId d = b_branchId b0")
    case True
    then have "filter (\<lambda>b. d_branchId d = b_branchId b) bs = [b0]"
      using filter_unique_key [OF assms] by simp
    with True Cons show ?thesis
      by (simp add: step branchPerformanceKey_def)
  next
    case False
    then have "filter (\<lambda>r. branchPerformanceKey r = (b_branchId b0, b_branchName b0, b_region b0))
                 (map (Pair d) (filter (\<lambda>b. d_branchId d = b_branchId b) bs)) = []"
      by (auto simp: filter_empty_conv branchPerformanceKey_def)
    with False Cons show ?thesis
      by (simp add: step)
  qed
qed

lemma inner_join_set:
  "set (inner_join ls rs on) = {(l, r). l \<in> set ls \<and> r \<in> set rs \<and> on l r}"
  by (auto simp: inner_join_def)

lemma groups_of_set:
  "g \<in> set (groups_of key rows) \<Longrightarrow>
   \<exists>x \<in> set rows. g = (key x, filter (\<lambda>r. key r = key x) rows)"
  by (auto simp: groups_of_def)


lemma branchPerformanceRow_Inr:
  "branchPerformanceRow ((bid, bname, breg), rows) =
   Inr \<lparr>bp_branchId = bid, bp_branchName = bname, bp_region = breg,
        bp_dailyTarget = sql_avg (map (\<lambda>d. Some (d_dailyTargetKsh d)) (map fst rows)),
        bp_dailyCollected = sql_avg (map (\<lambda>d. Some (d_collectedKsh d)) (map fst rows)),
        bp_disbursedAmount = sql_sum (map (\<lambda>d. Some (d_disbursedAmountKsh d)) (map fst rows)),
        bp_arrearsAmount = sql_sum (map (\<lambda>d. Some (d_arrearsNewKsh d)) (map fst rows)),
        bp_parPercent = sql_avg (map (\<lambda>d. Some (d_parPercent d)) (map fst rows)),
        bp_collectionRate =
          Some (if sum_list (map d_dailyDuesKsh (map fst rows)) > 0
                then sum_list (map d_collectedKsh (map fst rows))
                     / sum_list (map d_dailyDuesKsh (map fst rows)) * 100
                else 0),
        bp_recruitedToday = sql_sum (map (\<lambda>d. Some (d_recruitedToday d)) (map fst rows))\<rparr>"
  unfolding branchPerformanceRow_def Let_def prod.case collectionRateCase_rows
  by simp

lemma branchPerformanceRow_projr: "branchPerformanceRow g = Inr (projr (branchPerformanceRow g))"
proof -
  obtain bid bname breg rows where "g = ((bid, bname, breg), rows)"
    by (metis prod.collapse)
  then show ?thesis by (simp add: branchPerformanceRow_Inr)
qed

lemma getBranchPerformance_Inr:
  "getBranchPerformance s plan branchId timeRange =
   Inr (map (\<lambda>g. projr (branchPerformanceRow g))
          (group_by plan branchPerformanceKey
             (if branchId = ''all'' then branchPerformanceJoin s
              else filter (\<lambda>(d, b). d_branchId d = branchId) (branchPerformanceJoin s))))"
  using sql_rows_all_Inr [of _ branchPerformanceRow "\<lambda>g. projr (branchPerformanceRow g)"]
    branchPerformanceRow_projr
  by (simp add: getBranchPerformance_def)

lemma branch_group_rate:
  assumes pk: "distinct (map b_branchId (branches s))"
    and g: "g \<in> set (groups_of branchPerformanceKey
             (if branchId = ''all'' then branchPerformanceJoin s
              else filter (\<lambda>(d, b). d_branchId d = branchId) (branchPerformanceJoin s)))"
  shows "map fst (snd g) =
         filter (\<lambda>d. d_branchId d = fst (fst g)) (dailyBranchPerformance s)"
proof -
  let ?J = "branchPerformanceJoin s"
  let ?P = "\<lambda>(d, b). d_branchId d = branchId"
  let ?sel = "if branchId = ''all'' then ?J else filter ?P ?J"
  from groups_of_set [OF g] obtain x where x: "x \<in> set ?sel"
    and gx: "g = (branchPerformanceKey x, filter (\<lambda>r. branchPerformanceKey r = branchPerformanceKey x) ?sel)"
    by blast
  obtain d0 b0 where x0: "x = (d0, b0)" by (cases x)
  from x have xJ: "x \<in> set ?J" by (auto split: if_splits)
  with x0 have b0: "b0 \<in> set (branches s)" and id0: "d_branchId d0 = b_branchId b0"
    by (auto simp: branchPerformanceJoin_def inner_join_set)
  have key: "branchPerformanceKey x = (b_branchId b0, b_branchName b0, b_region b0)"
    using x0 id0 by (simp add: branchPerformanceKey_def)
  have same: "filter (\<lambda>r. branchPerformanceKey r = branchPerformanceKey x) ?sel =
              filter (\<lambda>r. branchPerformanceKey r = branchPerformanceKey x) ?J"
  proof (cases "branchId = ''all''")
    case True
    then show ?thesis by simp
  next
    case False
    with x x0 id0 have "b_branchId b0 = branchId" by auto
    then have "\<And>r. branchPerformanceKey r = branchPerformanceKey x \<Longrightarrow> ?P r"
      unfolding key by (auto simp: branchPerformanceKey_def)
    then have "filter (\<lambda>r. branchPerformanceKey r = branchPerformanceKey x) (filter ?P ?J) =
               filter (\<lambda>r. branchPerformanceKey r = branchPerformanceKey x) ?J"
      by (auto simp: filter_filter intro: filter_cong)
    with False show ?thesis by simp
  qed
  have "snd g = filter (\<lambda>r. branchPerformanceKey r = (b_branchId b0, b_branchName b0, b_region b0))
                  (inner_join (dailyBranchPerformance s) (branches s)
                     (\<lambda>d b. d_branchId d = b_branchId b))"
    by (simp only: gx snd_conv same) (simp only: key branchPerformanceJoin_def)
  moreover have "fst (fst g) = b_branchId b0"
    by (simp only: gx fst_conv key)
  ultimately show ?thesis
    using branch_group_rows [OF pk b0, of "dailyBranchPerformance s"] by simp
qed


lemma regionalRow_Inr:
  "regionalRow (reg, rows) =
   Inr \<lparr>rg_region = reg,
        rg_totalBranches = sql_count_distinct (map (\<lambda>((b, d), c). Some (b_branchId b)) rows),
        rg_totalDisbursed =
          sum_list (map d_disbursedAmountKsh (non_null (map regionalDaily rows))),
        rg_totalCollected =
          sum_list (map d_collectedKsh (non_null (map regionalDaily rows))),
        rg_collectionRate =
          Some (if sum_list (map d_dailyDuesKsh (non_null (map regionalDaily rows))) > 0
                then sum_list (map d_collectedKsh (non_null (map regionalDaily rows)))
                     / sum_list (map d_dailyDuesKsh (non_null (map regionalDaily rows))) * 100
                else 0),
        rg_avgParPercent =
          sum_list (map d_parPercent (non_null (map regionalDaily rows)))
          / of_nat (length (non_null (map regionalDaily rows))),
        rg_activeCustomers =
          sql_count_distinct (map (\<lambda>((b, d), c). map_option c_customerId c) rows)\<rparr>"
  unfolding regionalRow_def Let_def prod.case collectionRateCase_joined
    coalesce_sql_sum coalesce_sql_avg non_null_map_option
  by simp

lemma regionalRow_projr: "regionalRow g = Inr (projr (regionalRow g))"
  by (cases g) (simp add: regionalRow_Inr)

lemma getRegionalMetrics_Inr:
  "getRegionalMetrics s plan =
   Inr (map (\<lambda>g. projr (regionalRow g))
          (group_by plan regionalKey (regionalJoin s)))"
  using sql_rows_all_Inr [of _ regionalRow "\<lambda>g. projr (regionalRow g)"] regionalRow_projr
  by (simp add: getRegionalMetrics_def)

lemma spec_rate_range:
  assumes "0 \<le> c" and "c \<le> d"
  shows "0 \<le> spec_computeCollectionRate d c \<and> spec_computeCollectionRate d c \<le> 100"
proof (cases "d > 0")
  case True
  define q where "q = c / d"
  from True assms have "0 \<le> q" "q \<le> 1" by (simp_all add: q_def divide_le_eq_1)
  then have "0 \<le> q * 100" "q * 100 \<le> 100" by simp_all
  with True show ?thesis
    unfolding q_def by (simp only: spec_computeCollectionRate_def if_True simp_thms)
next
  case False
  then show ?thesis by (simp add: spec_computeCollectionRate_def)
qed


lemma branch_rate_of_group:
  assumes pk: "distinct (map b_branchId (branches s))"
    and g: "g \<in> set (groups_of branchPerformanceKey
             (if branchId = ''all'' then branchPerformanceJoin s
              else filter (\<lambda>(d, b). d_branchId d = branchId) (branchPerformanceJoin s)))"
  shows "bp_collectionRate (projr (branchPerformanceRow g)) =
          Some (spec_computeCollectionRate
            (sum_list (map d_dailyDuesKsh
               (filter (\<lambda>d. d_branchId d = bp_branchId (projr (branchPerformanceRow g)))
                  (dailyBranchPerformance s))))
            (sum_list (map d_collectedKsh
               (filter (\<lambda>d. d_branchId d = bp_branchId (projr (branchPerformanceRow g)))
                  (dailyBranchPerformance s)))))"
proof -
  obtain bid bname breg rows where eq: "g = ((bid, bname, breg), rows)"
    by (metis prod.collapse)
  from branch_group_rate [OF pk g]
  have rows: "map fst rows = filter (\<lambda>d. d_branchId d = bid) (dailyBranchPerformance s)"
    unfolding eq by simp
  show ?thesis
    unfolding eq branchPerformanceRow_Inr rows spec_computeCollectionRate_def
    by simp
qed

lemma branch_rate_refines:
  assumes pk: "distinct (map b_branchId (branches s))"
  shows "\<exists>rows. getBranchPerformance s plan branchId timeRange = Inr rows \<and>
           (\<forall>r \<in> set rows.
              bp_collectionRate r =
                Some (spec_computeCollectionRate
                  (sum_list (map d_dailyDuesKsh
                     (filter (\<lambda>d. d_branchId d = bp_branchId r) (dailyBranchPerformance s))))
                  (sum_list (map d_collectedKsh
                     (filter (\<lambda>d. d_branchId d = bp_branchId r) (dailyBranchPerformance s))))))"
proof (intro exI conjI ballI)
  show "getBranchPerformance s plan branchId timeRange =
        Inr (map (\<lambda>g. projr (branchPerformanceRow g))
          (group_by plan branchPerformanceKey
             (if branchId = ''all'' then branchPerformanceJoin s
              else filter (\<lambda>(d, b). d_branchId d = branchId) (branchPerformanceJoin s))))"
    by (rule getBranchPerformance_Inr)
next
  fix r
  assume "r \<in> set (map (\<lambda>g. projr (branchPerformanceRow g))
          (group_by plan branchPerformanceKey
             (if branchId = ''all'' then branchPerformanceJoin s
              else filter (\<lambda>(d, b). d_branchId d = branchId) (branchPerformanceJoin s))))"
  then obtain g where g: "g \<in> set (groups_of branchPerformanceKey
             (if branchId = ''all'' then branchPerformanceJoin s
              else filter (\<lambda>(d, b). d_branchId d = branchId) (branchPerformanceJoin s)))"
    and r: "r = projr (branchPerformanceRow g)"
    unfolding set_map set_group_by by (rule imageE)
  show "bp_collectionRate r =
                Some (spec_computeCollectionRate
                  (sum_list (map d_dailyDuesKsh
                     (filter (\<lambda>d. d_branchId d = bp_branchId r) (dailyBranchPerformance s))))
                  (sum_list (map d_collectedKsh
                     (filter (\<lambda>d. d_branchId d = bp_branchId r) (dailyBranchPerformance s)))))"
    unfolding r by (rule branch_rate_of_group [OF pk g])
qed

lemma dashboard_rate_refines:
  "\<exists>m. getDashboardMetrics s topPlan alertPlan now = Inr m \<and>
        collectionRate m =
          spec_computeCollectionRate
            (sum_list (map d_dailyDuesKsh (dailyBranchPerformance s)))
            (sum_list (map d_collectedKsh (dailyBranchPerformance s)))"
  unfolding getDashboardMetrics_Inr spec_computeCollectionRate_def by simp



text \<open>
  The scenario of a branch with two daily rows, dues 1000 with 800 collected and dues
  2000 with 1900 collected: the reported rate is 90.
\<close>

lemma store_one_branch_tables:
  "branches store_one_branch = [mkBranch ''B1'' ''North'']"
  "dailyBranchPerformance store_one_branch =
     [mkDaily ''d1'' ''B1'' 5000 1000 800 10, mkDaily ''d2'' ''B1'' 7000 2000 1900 20]"
  by (simp_all add: store_one_branch_def empty_store_def)

lemma branch_performance_scenario:
  "\<exists>rows. getBranchPerformance store_one_branch plan ''B1'' ''daily'' = Inr rows \<and>
      map bp_branchId rows = [''B1''] \<and> map bp_collectionRate rows = [Some 90]"
  by (simp add: getBranchPerformance_Inr branchPerformanceJoin_def inner_join_def
      store_one_branch_tables mkBranch_def mkDaily_def group_by_def groups_of_def
      branchPerformanceKey_def branchPerformanceRow_Inr)

section \<open>Regional metrics and the join with the customers\<close>

lemmas regional_eval =
  getRegionalMetrics_Inr regionalJoin_def left_join_def group_by_def groups_of_def
  regionalKey_def regionalDaily_def regionalRow_Inr sql_count_distinct_def mkBranch_def
  mkDaily_def mkCustomer_def

lemma store_overcollected_tables:
  "branches store_overcollected = [mkBranch ''B1'' ''North'', mkBranch ''B2'' ''North'']"
  "dailyBranchPerformance store_overcollected =
     [mkDaily ''d1'' ''B1'' 100 100 150 10, mkDaily ''d2'' ''B2'' 100 200 0 10]"
  "customers store_overcollected =
     [mkCustomer ''C00'' ''B1'' ''North'', mkCustomer ''C01'' ''B1'' ''North'',
      mkCustomer ''C02'' ''B1'' ''North'', mkCustomer ''C03'' ''B1'' ''North'',
      mkCustomer ''C04'' ''B1'' ''North'', mkCustomer ''C05'' ''B1'' ''North'',
      mkCustomer ''C06'' ''B1'' ''North'', mkCustomer ''C07'' ''B1'' ''North'',
      mkCustomer ''C08'' ''B1'' ''North'', mkCustomer ''C09'' ''B1'' ''North'']"
  by (simp_all add: store_overcollected_def empty_store_def)

text \<open>
  C1. The collection rate is claimed to be, at every granularity, the zero-guarded ratio
  of the summed collected to the summed dues, and to lie between 0 and 100 when the
  summed collected is at most the summed dues. The dashboard summary and branch
  performance compute it so (\<open>dashboard_rate_refines\<close>, \<open>branch_rate_refines\<close>,
  \<open>spec_rate_range\<close>). The regional query takes its sums over the rows of the join
  with the customers: for a region whose daily rows sum to dues 300 and collected 150, a
  ratio of 50, the reported rate is \<open>1500 / 1200 * 100 = 125\<close>.
\<close>

theorem regional_rate_counts_daily_rows_per_customer:
  "(\<exists>r. getRegionalMetrics store_overcollected plan = Inr [r] \<and> rg_region r = ''North''
        \<and> rg_totalCollected r = 1500 \<and> rg_collectionRate r = Some 125)
   \<and> sum_list (map d_dailyDuesKsh (regionDailyRows store_overcollected ''North'')) = 300
   \<and> sum_list (map d_collectedKsh (regionDailyRows store_overcollected ''North'')) = 150
   \<and> spec_computeCollectionRate 300 150 = 50"
  by (simp add: regional_eval store_overcollected_tables regionDailyRows_def
      spec_computeCollectionRate_def)

lemma store_two_customers_tables:
  "branches store_two_customers = [mkBranch ''B1'' ''North'']"
  "dailyBranchPerformance store_two_customers = [mkDaily ''d1'' ''B1'' 100 100 80 10]"
  "customers store_two_customers =
     [mkCustomer ''C1'' ''B1'' ''North'', mkCustomer ''C2'' ''B1'' ''North'']"
  by (simp_all add: store_two_customers_def empty_store_def)

text \<open>
  C2. The regional totals are claimed to be the plain sums over the daily rows of the
  region's branches. In the code they are sums over the rows of the join with the
  customers: a branch with one daily row (disbursed 100, collected 80) and two customers
  is reported with \<open>totalDisbursed = 200\<close> and \<open>totalCollected = 160\<close>, while the
  plain sums are 100 and 80.
\<close>

theorem regional_totals_count_daily_rows_per_customer:
  "getRegionalMetrics store_two_customers plan =
     Inr [\<lparr>rg_region = ''North'', rg_totalBranches = 1, rg_totalDisbursed = 200,
           rg_totalCollected = 160, rg_collectionRate = Some 80, rg_avgParPercent = 10,
           rg_activeCustomers = 2\<rparr>]
   \<and> sum_list (map d_disbursedAmountKsh (regionDailyRows store_two_customers ''North'')) = 100
   \<and> sum_list (map d_collectedKsh (regionDailyRows store_two_customers ''North'')) = 80"
  by (simp add: regional_eval store_two_customers_tables regionDailyRows_def)

lemma store_uneven_customers_tables:
  "branches store_uneven_customers = [mkBranch ''B1'' ''North'', mkBranch ''B2'' ''North'']"
  "dailyBranchPerformance store_uneven_customers =
     [mkDaily ''d1'' ''B1'' 100 100 80 10, mkDaily ''d2'' ''B2'' 100 100 80 40]"
  "customers store_uneven_customers =
     [mkCustomer ''C1'' ''B1'' ''North'', mkCustomer ''C2'' ''B1'' ''North'']"
  by (simp_all add: store_uneven_customers_def empty_store_def)

text \<open>
  C3. The regional average PAR is claimed to be the unweighted mean over the region's
  daily rows. In the code the average runs over the rows of the join with the customers:
  with PAR 10 at a branch with two customers and PAR 40 at a branch with none, the
  reported average is \<open>(10 + 10 + 40) / 3 = 20\<close>, while the mean of the two daily rows
  is 25.
\<close>

theorem regional_avgPar_weighted_by_customers:
  "(\<exists>r. getRegionalMetrics store_uneven_customers plan = Inr [r] \<and> rg_region r = ''North''
        \<and> rg_avgParPercent r = 20)
   \<and> sum_list (map d_parPercent (regionDailyRows store_uneven_customers ''North''))
       / of_nat (length (regionDailyRows store_uneven_customers ''North'')) = 25"
  by (simp add: regional_eval store_uneven_customers_tables regionDailyRows_def)

section \<open>Empty inputs\<close>
























section \<open>The ranking of the branches\<close>

lemma sorted_desc_keys:
  "sorted (map (\<lambda>x. map_option uminus (Some x)) (rates :: rat list)) = sorted_wrt (\<ge>) rates"
  by (induction rates) auto

lemma order_by_desc_sorted:
  assumes "\<And>r. r \<in> set rows \<Longrightarrow> key r = Some (val r)"
  shows "sorted_wrt (\<ge>) (map val (take n (order_by_desc plan key rows)))"
proof -
  let ?out = "take n (order_by_desc plan key rows)"
  have "sorted (map (\<lambda>r. map_option uminus (key r)) (order_by_desc plan key rows))"
    unfolding order_by_desc_def by (rule sorted_sort_key)
  then have "sorted (take n (map (\<lambda>r. map_option uminus (key r)) (order_by_desc plan key rows)))"
    by (rule sorted_wrt_take)
  then have *: "sorted (map (\<lambda>r. map_option uminus (key r)) ?out)"
    by (simp only: take_map)
  have "set ?out \<subseteq> set rows"
    using set_take_subset [of n "order_by_desc plan key rows"] by (simp add: order_by_desc_def)
  then have "map (\<lambda>r. map_option uminus (key r)) ?out =
             map (\<lambda>x. map_option uminus (Some x)) (map val ?out)"
    using assms by (auto simp: subset_iff)
  with * show ?thesis
    by (simp only: sorted_desc_keys)
qed





section \<open>Two calls on the same store\<close>

lemma sorted_keys_plan_independent:
  "map key (sort_key key (arranged plan rows)) = sort (map key rows)"
proof -
  have "mset (map key (sort_key key (arranged plan rows))) = mset (map key rows)"
    by simp
  moreover have "sorted (map key (sort_key key (arranged plan rows)))"
    by (rule sorted_sort_key)
  ultimately show ?thesis
    by (rule properties_for_sort [symmetric])
qed

lemma order_by_desc_keys_plan_independent:
  "map key (order_by_desc plan key rows) = map key (order_by_desc plan' key rows)"
proof -
  let ?k = "\<lambda>r. map_option uminus (key r)"
  have inv: "key r = map_option uminus (?k r)" for r
    by (cases "key r") simp_all
  have "map ?k (order_by_desc plan key rows) = map ?k (order_by_desc plan' key rows)"
    unfolding order_by_desc_def sorted_keys_plan_independent ..
  then have "map (map_option uminus) (map ?k (order_by_desc plan key rows)) =
             map (map_option uminus) (map ?k (order_by_desc plan' key rows))"
    by (rule arg_cong)
  then show ?thesis
    unfolding map_map comp_def inv [symmetric] .
qed

lemma fraudCaseRow_riskScore [simp]: "fc_riskScore (fraudCaseRow now j) = riskOf j"
  by (simp add: fraudCaseRow_def riskOf_def split: prod.splits)

lemma fraud_scores_plan_independent:
  "map fc_riskScore (getFraudCases s plan now riskFilter) =
   map fc_riskScore (getFraudCases s plan' now riskFilter)"
proof -
  let ?key = "\<lambda>r. Some (riskOf r)"
  let ?rows = "fraudWhere riskFilter (fraudJoin s)"
  have "map ?key (take 50 (order_by_desc plan ?key ?rows)) =
        map ?key (take 50 (order_by_desc plan' ?key ?rows))"
    unfolding take_map [symmetric]
    by (rule arg_cong [OF order_by_desc_keys_plan_independent])
  then have "map the (map ?key (take 50 (order_by_desc plan ?key ?rows))) =
             map the (map ?key (take 50 (order_by_desc plan' ?key ?rows)))"
    by (rule arg_cong)
  then show ?thesis
    by (simp add: getFraudCases_def comp_def)
qed

lemma topBranch_rates_plan_independent:
  "map tb_collectionRate (take n (order_by_desc plan tb_collectionRate rows)) =
   map tb_collectionRate (take n (order_by_desc plan' tb_collectionRate rows))"
  unfolding take_map [symmetric]
  by (rule arg_cong [OF order_by_desc_keys_plan_independent])

lemma alert_severities_plan_independent:
  "map al_severity (recentAlertsQuery s plan now) = map al_severity (recentAlertsQuery s plan' now)"
proof -
  let ?key = "\<lambda>(c :: Customer, a). Some (a_riskScore0100 a)"
  let ?rows = "filter (\<lambda>(c, a). a_riskScore0100 a \<ge> 40) (customersWithFeatures s)"
  have "map ?key (take 10 (order_by_desc plan ?key ?rows)) =
        map ?key (take 10 (order_by_desc plan' ?key ?rows))"
    unfolding take_map [symmetric]
    by (rule arg_cong [OF order_by_desc_keys_plan_independent])
  then have "map (\<lambda>v. severity (the v)) (map ?key (take 10 (order_by_desc plan ?key ?rows))) =
             map (\<lambda>v. severity (the v)) (map ?key (take 10 (order_by_desc plan' ?key ?rows)))"
    by (rule arg_cong)
  then show ?thesis
    by (simp add: recentAlertsQuery_def comp_def case_prod_beta)
qed

lemma branch_performance_plan_independent:
  "\<exists>rows rows'. getBranchPerformance s plan branchId timeRange = Inr rows \<and>
      getBranchPerformance s plan' branchId timeRange = Inr rows' \<and> mset rows = mset rows'"
  unfolding getBranchPerformance_Inr by simp

lemma regional_plan_independent:
  "\<exists>rows rows'. getRegionalMetrics s plan = Inr rows \<and>
      getRegionalMetrics s plan' = Inr rows' \<and> mset rows = mset rows'"
  unfolding getRegionalMetrics_Inr by simp

lemma dashboard_plan_independent:
  "\<exists>m m'. getDashboardMetrics s topPlan alertPlan now = Inr m \<and>
      getDashboardMetrics s topPlan' alertPlan' now = Inr m' \<and>
      totalDisbursed m = totalDisbursed m' \<and> collectionRate m = collectionRate m' \<and>
      totalArrears m = totalArrears m' \<and> parRate m = parRate m' \<and>
      activeCustomers m = activeCustomers m' \<and> activeLoans m = activeLoans m' \<and>
      map tb_collectionRate (topPerformingBranches m) =
        map tb_collectionRate (topPerformingBranches m') \<and>
      map al_severity (recentAlerts m) = map al_severity (recentAlerts m')"
  unfolding getDashboardMetrics_Inr
  using topBranch_rates_plan_independent [of 10 topPlan _ topPlan']
    alert_severities_plan_independent [of s alertPlan now alertPlan']
  by simp

lemma fraud_clock:
  "getFraudCases s plan now' riskFilter =
     map (\<lambda>r. r\<lparr>fc_lastLoanDate := now'\<rparr>) (getFraudCases s plan now riskFilter)"
  by (simp add: getFraudCases_def fraudCaseRow_def case_prod_beta)

lemma dashboard_clock:
  "getDashboardMetrics s topPlan alertPlan now' =
     map_sum id (\<lambda>m. m\<lparr>recentAlerts := map (\<lambda>a. a\<lparr>al_timestamp := now'\<rparr>) (recentAlerts m)\<rparr>)
       (getDashboardMetrics s topPlan alertPlan now)"
  by (simp add: getDashboardMetrics_Inr recentAlertsQuery_def case_prod_beta)

text \<open>
  C8, as the code has it. Two calls on the same store agree up to what the queries leave
  open. Branch performance and regional metrics return the same records, in an order
  that the queries do not fix. The dashboard summary returns the same scalar aggregates,
  the same sequence of collection rates of the top branches and the same sequence of
  alert severities; the fraud listing returns the same sequence of risk scores; which
  of several rows with the same key is listed, and where, is the database's choice. The
  fields \<open>lastLoanDate\<close> of the fraud cases and \<open>timestamp\<close> of the recent alerts hold the
  time of the call (\<open>NOW()\<close>); a call at another time, with the rows in the same order,
  differs in these fields only.
\<close>

theorem calls_agree_up_to_order_and_clock:
  "(\<exists>rows rows'. getBranchPerformance s branchPlan branchId timeRange = Inr rows \<and>
        getBranchPerformance s branchPlan' branchId timeRange = Inr rows' \<and>
        mset rows = mset rows')
   \<and> (\<exists>rows rows'. getRegionalMetrics s regionPlan = Inr rows \<and>
        getRegionalMetrics s regionPlan' = Inr rows' \<and> mset rows = mset rows')
   \<and> (\<exists>m m'. getDashboardMetrics s topPlan alertPlan now = Inr m \<and>
        getDashboardMetrics s topPlan' alertPlan' now = Inr m' \<and>
        totalDisbursed m = totalDisbursed m' \<and> collectionRate m = collectionRate m' \<and>
        totalArrears m = totalArrears m' \<and> parRate m = parRate m' \<and>
        activeCustomers m = activeCustomers m' \<and> activeLoans m = activeLoans m' \<and>
        map tb_collectionRate (topPerformingBranches m) =
          map tb_collectionRate (topPerformingBranches m') \<and>
        map al_severity (recentAlerts m) = map al_severity (recentAlerts m'))
   \<and> map fc_riskScore (getFraudCases s fraudPlan now riskFilter) =
       map fc_riskScore (getFraudCases s fraudPlan' now riskFilter)
   \<and> getFraudCases s fraudPlan now' riskFilter =
       map (\<lambda>r. r\<lparr>fc_lastLoanDate := now'\<rparr>) (getFraudCases s fraudPlan now riskFilter)
   \<and> getDashboardMetrics s topPlan alertPlan now' =
       map_sum id (\<lambda>m. m\<lparr>recentAlerts := map (\<lambda>a. a\<lparr>al_timestamp := now'\<rparr>) (recentAlerts m)\<rparr>)
         (getDashboardMetrics s topPlan alertPlan now)"
  using branch_performance_plan_independent [of s branchPlan branchId timeRange branchPlan']
    regional_plan_independent [of s regionPlan regionPlan']
    dashboard_plan_independent [of s topPlan alertPlan now topPlan' alertPlan']
    fraud_scores_plan_independent [of s fraudPlan now riskFilter fraudPlan']
    fraud_clock [of s fraudPlan now' riskFilter now]
    dashboard_clock [of s topPlan alertPlan now' now]
  by (intro conjI)

lemmas fraud_eval =
  getFraudCases_def fraudJoin_def customersWithFeatures_def inner_join_def left_join_def
  fraudWhere_def order_by_desc_def fraudCaseRow_def riskOf_def mkCustomer_def mkFeatures_def

text \<open>
  C8 as stated fails: on the same store and with the rows in the same order, the fraud
  listing and the dashboard summary called at time 1 and at time 2 differ.
\<close>

theorem fraud_listing_differs_between_calls:
  "getFraudCases store_one_risky (\<lambda>rows. rows) 1 None
     \<noteq> getFraudCases store_one_risky (\<lambda>rows. rows) 2 None
   \<and> getDashboardMetrics store_one_risky (\<lambda>rows. rows) (\<lambda>rows. rows) 1
     \<noteq> getDashboardMetrics store_one_risky (\<lambda>rows. rows) (\<lambda>rows. rows) 2"
  by (simp add: fraud_eval getDashboardMetrics_Inr recentAlertsQuery_def
      store_one_risky_def empty_store_def)

section \<open>The fraud listing\<close>

lemma getFraudCases_bands:
  "getFraudCases s plan now (Some ''high'') =
     map (fraudCaseRow now) (take 50 (order_by_desc plan (\<lambda>r. Some (riskOf r))
        (filter (\<lambda>r. riskOf r \<ge> 70) (fraudJoin s))))"
  "getFraudCases s plan now (Some ''medium'') =
     map (fraudCaseRow now) (take 50 (order_by_desc plan (\<lambda>r. Some (riskOf r))
        (filter (\<lambda>r. riskOf r \<ge> 40 \<and> riskOf r < 70) (fraudJoin s))))"
  "getFraudCases s plan now (Some ''low'') =
     map (fraudCaseRow now) (take 50 (order_by_desc plan (\<lambda>r. Some (riskOf r))
        (filter (\<lambda>r. riskOf r < 40) (fraudJoin s))))"
  "getFraudCases s plan now None =
     map (fraudCaseRow now) (take 50 (order_by_desc plan (\<lambda>r. Some (riskOf r)) (fraudJoin s)))"
  by (simp_all add: getFraudCases_def fraudWhere_def)

lemma fraud_band_scores:
  assumes "r \<in> set (map (fraudCaseRow now) (take n (order_by_desc plan key (filter P rows))))"
  shows "\<exists>j. r = fraudCaseRow now j \<and> P j"
proof -
  from assms obtain j where r: "r = fraudCaseRow now j"
    and j: "j \<in> set (take n (order_by_desc plan key (filter P rows)))"
    unfolding set_map by (elim imageE)
  have "set (take n (order_by_desc plan key (filter P rows))) \<subseteq> set (filter P rows)"
    using set_take_subset [of n "order_by_desc plan key (filter P rows)"] by simp
  with j have "j \<in> set (filter P rows)" by blast
  then have "P j" by simp
  with r show ?thesis by blast
qed

lemma fraud_sorted:
  "sorted_wrt (\<ge>) (map fc_riskScore (getFraudCases s plan now riskFilter))"
proof -
  have "sorted_wrt (\<ge>) (map riskOf (take 50 (order_by_desc plan (\<lambda>r. Some (riskOf r))
          (fraudWhere riskFilter (fraudJoin s)))))"
    by (rule order_by_desc_sorted) simp
  then show ?thesis
    by (simp add: getFraudCases_def comp_def)
qed

lemma mset_three_bands:
  "mset (filter (\<lambda>r. riskOf r \<ge> 70) rows) + mset (filter (\<lambda>r. riskOf r \<ge> 40 \<and> riskOf r < 70) rows)
     + mset (filter (\<lambda>r. riskOf r < 40) rows) = mset rows"
  by (induction rows) auto

lemma fraud_partition_uncapped:
  assumes "length (fraudJoin s) \<le> 50"
  shows "mset (getFraudCases s highPlan now (Some ''high''))
           + mset (getFraudCases s mediumPlan now (Some ''medium''))
           + mset (getFraudCases s lowPlan now (Some ''low'')) = mset (getFraudCases s allPlan now None)"
proof -
  have full: "\<And>P plan key. take 50 (order_by_desc plan key (filter P (fraudJoin s))) =
                 order_by_desc plan key (filter P (fraudJoin s))"
  proof -
    fix P :: "fraudJoinRow \<Rightarrow> bool" and plan key
    have "length (filter P (fraudJoin s)) \<le> length (fraudJoin s)" by (rule length_filter_le)
    then have "length (filter P (fraudJoin s)) \<le> 50" using assms by (rule le_trans)
    then show "take 50 (order_by_desc plan key (filter P (fraudJoin s))) =
                 order_by_desc plan key (filter P (fraudJoin s))"
      by simp
  qed
  have all: "take 50 (order_by_desc allPlan (\<lambda>r. Some (riskOf r)) (fraudJoin s)) =
             order_by_desc allPlan (\<lambda>r. Some (riskOf r)) (fraudJoin s)"
    using assms by simp
  let ?J = "fraudJoin s"
  have "image_mset (fraudCaseRow now)
          (mset (filter (\<lambda>r. riskOf r \<ge> 70) ?J)
           + mset (filter (\<lambda>r. riskOf r \<ge> 40 \<and> riskOf r < 70) ?J)
           + mset (filter (\<lambda>r. riskOf r < 40) ?J)) =
        image_mset (fraudCaseRow now) (mset ?J)"
    by (simp only: mset_three_bands)
  then show ?thesis
    unfolding getFraudCases_bands full all mset_map mset_order_by_desc image_mset_union .
qed

text \<open>
  C4, as the code has it. Whatever order the database yields the rows in: a band query
  returns only rows of its band; every result is in non-increasing order of risk score
  and has at most 50 rows; no row is in the result of two bands; and when the join has
  at most 50 rows the three band results together are exactly the rows of the
  unfiltered result.
\<close>

theorem fraud_bands_sorted_capped:
  "(\<forall>r \<in> set (getFraudCases s highPlan now (Some ''high'')). fc_riskScore r \<ge> 70)
   \<and> (\<forall>r \<in> set (getFraudCases s mediumPlan now (Some ''medium'')).
         fc_riskScore r \<ge> 40 \<and> fc_riskScore r < 70)
   \<and> (\<forall>r \<in> set (getFraudCases s lowPlan now (Some ''low'')). fc_riskScore r < 40)
   \<and> sorted_wrt (\<ge>) (map fc_riskScore (getFraudCases s plan now riskFilter))
   \<and> length (getFraudCases s plan now riskFilter) \<le> 50
   \<and> set (getFraudCases s highPlan now (Some ''high''))
        \<inter> set (getFraudCases s mediumPlan now (Some ''medium'')) = {}
   \<and> set (getFraudCases s highPlan now (Some ''high''))
        \<inter> set (getFraudCases s lowPlan now (Some ''low'')) = {}
   \<and> set (getFraudCases s mediumPlan now (Some ''medium''))
        \<inter> set (getFraudCases s lowPlan now (Some ''low'')) = {}
   \<and> (length (fraudJoin s) \<le> 50 \<longrightarrow>
        mset (getFraudCases s highPlan now (Some ''high''))
        + mset (getFraudCases s mediumPlan now (Some ''medium''))
        + mset (getFraudCases s lowPlan now (Some ''low'')) = mset (getFraudCases s allPlan now None))"
proof -
  have high: "fc_riskScore r \<ge> 70" if "r \<in> set (getFraudCases s highPlan now (Some ''high''))" for r
    using fraud_band_scores [OF that [unfolded getFraudCases_bands]] by auto
  have medium: "fc_riskScore r \<ge> 40 \<and> fc_riskScore r < 70"
    if "r \<in> set (getFraudCases s mediumPlan now (Some ''medium''))" for r
    using fraud_band_scores [OF that [unfolded getFraudCases_bands]] by auto
  have low: "fc_riskScore r < 40" if "r \<in> set (getFraudCases s lowPlan now (Some ''low''))" for r
    using fraud_band_scores [OF that [unfolded getFraudCases_bands]] by auto
  have hm: "set (getFraudCases s highPlan now (Some ''high''))
              \<inter> set (getFraudCases s mediumPlan now (Some ''medium'')) = {}"
    using high medium by fastforce
  have hl: "set (getFraudCases s highPlan now (Some ''high''))
              \<inter> set (getFraudCases s lowPlan now (Some ''low'')) = {}"
    using high low by fastforce
  have ml: "set (getFraudCases s mediumPlan now (Some ''medium''))
              \<inter> set (getFraudCases s lowPlan now (Some ''low'')) = {}"
    using medium low by fastforce
  have len: "length (getFraudCases s plan now riskFilter) \<le> 50"
    by (simp add: getFraudCases_def)
  have part: "length (fraudJoin s) \<le> 50 \<longrightarrow>
        mset (getFraudCases s highPlan now (Some ''high''))
        + mset (getFraudCases s mediumPlan now (Some ''medium''))
        + mset (getFraudCases s lowPlan now (Some ''low'')) = mset (getFraudCases s allPlan now None)"
    using fraud_partition_uncapped by blast
  from high medium low fraud_sorted [of s plan now riskFilter] len hm hl ml part
  show ?thesis by (intro conjI ballI) blast+
qed

lemma store_three_bands_tables:
  "customers store_three_bands =
     [mkCustomer ''C1'' ''B1'' ''North'', mkCustomer ''C2'' ''B1'' ''North'',
      mkCustomer ''C3'' ''B1'' ''North'']"
  "aiCustomerFeatures store_three_bands =
     [mkFeatures ''C1'' 10, mkFeatures ''C2'' 80, mkFeatures ''C3'' 50]"
  "fraudSignals store_three_bands = []"
  by (simp_all add: store_three_bands_def empty_store_def)

theorem fraud_bands_sorted_capped_witness:
  "length (fraudJoin store_three_bands) \<le> 50
   \<and> map fc_customerId (getFraudCases store_three_bands (\<lambda>rows. rows) 0 None) = [''C2'', ''C3'', ''C1'']
   \<and> map fc_riskScore (getFraudCases store_three_bands (\<lambda>rows. rows) 0 None) = [80, 50, 10]
   \<and> map fc_customerId (getFraudCases store_three_bands (\<lambda>rows. rows) 0 (Some ''high'')) = [''C2'']
   \<and> map fc_customerId (getFraudCases store_three_bands (\<lambda>rows. rows) 0 (Some ''medium'')) = [''C3'']
   \<and> map fc_customerId (getFraudCases store_three_bands (\<lambda>rows. rows) 0 (Some ''low'')) = [''C1'']
   \<and> mset (getFraudCases store_three_bands (\<lambda>rows. rows) 0 (Some ''high''))
       + mset (getFraudCases store_three_bands (\<lambda>rows. rows) 0 (Some ''medium''))
       + mset (getFraudCases store_three_bands (\<lambda>rows. rows) 0 (Some ''low''))
       = mset (getFraudCases store_three_bands (\<lambda>rows. rows) 0 None)"
  using fraud_bands_sorted_capped [of store_three_bands "\<lambda>rows. rows" 0 "\<lambda>rows. rows"
      "\<lambda>rows. rows" "\<lambda>rows. rows" None "\<lambda>rows. rows"]
  by (simp add: fraud_eval store_three_bands_tables)


section \<open>Fifty-one customers\<close>

lemma customerNo_inj:
  assumes "i < 100" and "j < 100" and "customerNo i = customerNo j"
  shows "i = j"
proof -
  from assms(3) have "(48 + i div 10) mod 256 = (48 + j div 10) mod 256"
    and "(48 + i mod 10) mod 256 = (48 + j mod 10) mod 256"
    by (simp_all add: customerNo_def)
  with assms(1,2) have "i div 10 = j div 10" and "i mod 10 = j mod 10"
    by simp_all
  then show ?thesis by (metis div_mult_mod_eq)
qed

lemma inner_join_indexed:
  assumes "distinct ks"
    and key: "\<And>i j. i \<in> set ks \<Longrightarrow> j \<in> set ks \<Longrightarrow> on (f i) (g j) = (i = j)"
  shows "inner_join (map f ks) (map g ks) on = map (\<lambda>i. (f i, g i)) ks"
proof -
  have one: "map (Pair (f i)) (filter (on (f i)) (map g ks)) = [(f i, g i)]" if i: "i \<in> set ks" for i
  proof -
    have "filter (on (f i)) (map g ks) = map g (filter (\<lambda>j. on (f i) (g j)) ks)"
      by (simp add: filter_map comp_def)
    also have "filter (\<lambda>j. on (f i) (g j)) ks = filter (\<lambda>j. id i = id j) ks"
      using key [OF i] by (auto intro: filter_cong)
    also have "\<dots> = [i]"
      using assms(1) i by (intro filter_unique_key) simp_all
    finally show ?thesis by simp
  qed
  have "inner_join (map f ks) (map g ks) on =
        concat (map (\<lambda>i. map (Pair (f i)) (filter (on (f i)) (map g ks))) ks)"
    by (simp add: inner_join_def comp_def)
  also have "\<dots> = concat (map (\<lambda>i. [(f i, g i)]) ks)"
    using one by (simp cong: map_cong)
  also have "\<dots> = map (\<lambda>i. (f i, g i)) ks"
    by (induction ks) simp_all
  finally show ?thesis .
qed

lemma left_join_Nil: "left_join ls [] on = map (\<lambda>l. (l, None)) ls"
  by (induction ls) (simp_all add: left_join_def)

lemma store_51_customers_join:
  "fraudJoin store_51_customers =
     map (\<lambda>i. ((mkCustomer (customerNo i) ''B1'' ''North'',
                 mkFeatures (customerNo i) (if i < 50 then 80 else 10)), None)) [0..<51]"
proof -
  let ?c = "\<lambda>i. mkCustomer (customerNo i) ''B1'' ''North''"
  let ?a = "\<lambda>i. mkFeatures (customerNo i) (if i < 50 then 80 else 10)"
  have "inner_join (map ?c [0..<51]) (map ?a [0..<51]) (\<lambda>c a. c_customerId c = a_customerId a) =
        map (\<lambda>i. (?c i, ?a i)) [0..<51]"
  proof (rule inner_join_indexed)
    show "distinct [0..<51]" by simp
  next
    fix i j :: nat
    assume "i \<in> set [0..<51]" and "j \<in> set [0..<51]"
    then have "i < 100" and "j < 100" by simp_all
    then show "(c_customerId (?c i) = a_customerId (?a j)) = (i = j)"
      using customerNo_inj [of i j] by (auto simp: mkCustomer_def mkFeatures_def)
  qed
  then show ?thesis
    by (simp add: fraudJoin_def customersWithFeatures_def store_51_customers_def
        empty_store_def left_join_Nil)
qed

lemma sorted_take_filter:
  "sorted (map k xs) \<Longrightarrow> take (length (filter (\<lambda>x. k x \<le> c) xs)) xs = filter (\<lambda>x. k x \<le> c) xs"
proof (induction xs)
  case Nil
  show ?case by simp
next
  case (Cons x xs)
  from Cons.prems have le: "\<And>y. y \<in> set xs \<Longrightarrow> k x \<le> k y" and sorted: "sorted (map k xs)"
    by simp_all
  show ?case
  proof (cases "k x \<le> c")
    case True
    with Cons.IH [OF sorted] show ?thesis by simp
  next
    case False
    have "filter (\<lambda>x. k x \<le> c) xs = []"
    proof (rule filter_False, rule ballI)
      fix y assume "y \<in> set xs"
      then have "k x \<le> k y" by (rule le)
      with False show "\<not> k y \<le> c" by (meson order_trans)
    qed
    with False show ?thesis by simp
  qed
qed

lemma store_51_customers_all:
  "set (map fc_customerId (getFraudCases store_51_customers plan now None)) = customerNo ` {0..<50}"
  "length (getFraudCases store_51_customers plan now None) = 50"
proof -
  let ?row = "\<lambda>i. ((mkCustomer (customerNo i) ''B1'' ''North'',
                 mkFeatures (customerNo i) (if i < 50 then 80 else (10::rat))), None :: FraudSignal option)"
  let ?J = "map ?row [0..<51]"
  let ?k = "\<lambda>r. map_option uminus (Some (riskOf r))"
  let ?L = "order_by_desc plan (\<lambda>r. Some (riskOf r)) ?J"
  let ?P = "\<lambda>r. ?k r \<le> Some (- 70)"
  have split: "[0..<51] = [0..<50] @ [50::nat]"
    using upt_Suc_append [of 0 50] by simp
  have high: "filter ?P ?J = map ?row [0..<50]"
    unfolding split by (simp add: filter_map comp_def riskOf_def mkFeatures_def)
  have "sorted (map ?k ?L)"
    unfolding order_by_desc_def by (rule sorted_sort_key)
  then have take: "take (length (filter ?P ?L)) ?L = filter ?P ?L"
    by (rule sorted_take_filter)
  have "mset (filter ?P ?L) = mset (filter ?P ?J)"
    unfolding mset_filter mset_order_by_desc ..
  then have same: "mset (filter ?P ?L) = mset (map ?row [0..<50])"
    unfolding high .
  have "length (filter ?P ?L) = length (map ?row [0..<50])"
    using same by (rule mset_eq_length)
  also have "\<dots> = 50"
    by simp
  finally have "length (filter ?P ?L) = 50" .
  with take have top: "take 50 ?L = filter ?P ?L"
    by (simp only:)
  have "set (take 50 ?L) = set (map ?row [0..<50])"
    unfolding top using same by (rule mset_eq_setD)
  then have "set (map (\<lambda>j. fc_customerId (fraudCaseRow now j)) (take 50 ?L)) =
             (\<lambda>j. fc_customerId (fraudCaseRow now j)) ` set (map ?row [0..<50])"
    by simp
  also have "\<dots> = customerNo ` {0..<50}"
    by (simp add: image_image fraudCaseRow_def mkCustomer_def)
  finally show "set (map fc_customerId (getFraudCases store_51_customers plan now None)) =
                customerNo ` {0..<50}"
    by (simp add: getFraudCases_def fraudWhere_def store_51_customers_join comp_def)
  show "length (getFraudCases store_51_customers plan now None) = 50"
    by (simp add: getFraudCases_def fraudWhere_def store_51_customers_join)
qed

lemma store_51_customers_low:
  "map fc_customerId (getFraudCases store_51_customers plan now (Some ''low'')) = [customerNo 50]"
proof -
  let ?row = "\<lambda>i. ((mkCustomer (customerNo i) ''B1'' ''North'',
                 mkFeatures (customerNo i) (if i < 50 then 80 else (10::rat))), None :: FraudSignal option)"
  have "[0..<51] = [0..<50] @ [50::nat]"
    using upt_Suc_append [of 0 50] by simp
  then have "filter (\<lambda>r. riskOf r < 40) (map ?row [0..<51]) = [?row 50]"
    by (simp add: filter_map comp_def riskOf_def mkFeatures_def)
  then show ?thesis
    by (simp add: getFraudCases_def fraudWhere_def store_51_customers_join order_by_desc_def
        fraudCaseRow_def mkCustomer_def)
qed

text \<open>
  C4 as stated fails where the cap applies: with 50 customers of score 80 and one of
  score 10, the low band returns the customer of score 10, who is not among the 50 rows
  of the unfiltered result, in whatever order the database yields the rows.
\<close>

theorem fraud_bands_exceed_capped_listing:
  "\<forall>lowPlan allPlan.
     map fc_customerId (getFraudCases store_51_customers lowPlan 0 (Some ''low'')) = [''C50'']
     \<and> ''C50'' \<notin> set (map fc_customerId (getFraudCases store_51_customers allPlan 0 None))
     \<and> length (getFraudCases store_51_customers allPlan 0 None) = 50"
proof (intro allI)
  fix lowPlan allPlan :: "fraudJoinRow plan"
  have c50: "customerNo 50 = ''C50''" by code_simp
  have "customerNo 50 \<notin> customerNo ` {0..<50}"
  proof
    assume "customerNo 50 \<in> customerNo ` {0..<50}"
    then obtain j where j: "j < 50" and "customerNo 50 = customerNo j" by auto
    then have "50 = j" using customerNo_inj [of 50 j] by simp
    with j show False by simp
  qed
  then have notin: "''C50'' \<notin> set (map fc_customerId (getFraudCases store_51_customers allPlan 0 None))"
    unfolding store_51_customers_all by (simp add: c50)
  have len: "length (getFraudCases store_51_customers allPlan 0 None) = 50"
    by (rule store_51_customers_all)
  have low: "map fc_customerId (getFraudCases store_51_customers lowPlan 0 (Some ''low'')) = [''C50'']"
    by (simp only: store_51_customers_low c50)
  from low notin len
  show "map fc_customerId (getFraudCases store_51_customers lowPlan 0 (Some ''low'')) = [''C50'']
     \<and> ''C50'' \<notin> set (map fc_customerId (getFraudCases store_51_customers allPlan 0 None))
     \<and> length (getFraudCases store_51_customers allPlan 0 None) = 50"
    by (intro conjI)
qed

section \<open>Validation in the fraud-cases route\<close>

text \<open>
  C9, as the code has it. A riskFilter that is a non-empty string outside the four
  names, or not a string, is answered with status 400 and no call to the storage layer.
  The three band names are passed to \<open>getFraudCases\<close>; \<open>all\<close>, an absent
  parameter and the empty string call it without a band.
\<close>

theorem fraudCasesRoute_validation:
  "(q = QOther \<or> (\<exists>str. q = QString str \<and> str \<noteq> [] \<and> str \<notin> set validFilters) \<longrightarrow>
      fraudCasesRoute s plan now q =
        (Status400 ''Invalid risk filter. Must be one of: all, high, medium, low'', []))
   \<and> (band \<in> {''high'', ''medium'', ''low''} \<longrightarrow>
        fraudCasesRoute s plan now (QString band) =
          (Json200 (getFraudCases s plan now (Some band)), [GetFraudCases (Some band)]))
   \<and> (q0 \<in> {Undefined, QString [], QString ''all''} \<longrightarrow>
        fraudCasesRoute s plan now q0 =
          (Json200 (getFraudCases s plan now None), [GetFraudCases None]))"
  by (auto simp: fraudCasesRoute_def riskFilterOrAll_def validFilters_def Let_def)

theorem fraudCasesRoute_validation_witness:
  "''bogus'' \<noteq> [] \<and> ''bogus'' \<notin> set validFilters
   \<and> fraudCasesRoute store_one_risky (\<lambda>rows. rows) 5 (QString ''bogus'') =
       (Status400 ''Invalid risk filter. Must be one of: all, high, medium, low'', [])
   \<and> ''high'' \<in> {''high'', ''medium'', ''low''}
   \<and> (\<exists>r. fraudCasesRoute store_one_risky (\<lambda>rows. rows) 5 (QString ''high'') =
            (Json200 [r], [GetFraudCases (Some ''high'')]) \<and> fc_customerId r = ''C1'')
   \<and> Undefined \<in> {Undefined, QString [], QString ''all''}
   \<and> (\<exists>r. fraudCasesRoute store_one_risky (\<lambda>rows. rows) 5 Undefined =
            (Json200 [r], [GetFraudCases None]) \<and> fc_customerId r = ''C1'')"
  using fraudCasesRoute_validation
    [of "QString ''bogus''" store_one_risky "\<lambda>rows. rows" 5 "''high''" Undefined]
  by (simp add: validFilters_def fraud_eval store_one_risky_def empty_store_def Let_def)

text \<open>
  C9 as stated fails at the empty string: it is outside the four names, and the request
  is served as \<open>all\<close>, with a call to the storage layer.
\<close>

theorem empty_riskFilter_is_served:
  "[] \<notin> set validFilters
   \<and> fraudCasesRoute store_one_risky (\<lambda>rows. rows) 5 (QString []) =
       (Json200 (getFraudCases store_one_risky (\<lambda>rows. rows) 5 None), [GetFraudCases None])
   \<and> length (getFraudCases store_one_risky (\<lambda>rows. rows) 5 None) = 1"
  by (simp add: validFilters_def fraudCasesRoute_def riskFilterOrAll_def fraud_eval
      store_one_risky_def empty_store_def Let_def)

section \<open>Bulk inserts and conflicts\<close>

lemma ocdn_keys:
  "key ` set (on_conflict_do_nothing key table rows) = key ` set table \<union> key ` set rows"
  by (induction rows arbitrary: table) auto

lemma ocdn_skip_all:
  "key ` set rows \<subseteq> key ` set table \<Longrightarrow> on_conflict_do_nothing key table rows = table"
  by (induction rows arbitrary: table) auto

lemma ocdn_idem:
  "on_conflict_do_nothing key (on_conflict_do_nothing key table rows) rows =
   on_conflict_do_nothing key table rows"
  by (rule ocdn_skip_all) (simp add: ocdn_keys)

lemma ocdn_keeps:
  "\<exists>new. on_conflict_do_nothing key table rows = table @ new \<and> set new \<subseteq> set rows \<and>
         key ` set new \<inter> key ` set table = {}"
proof (induction rows arbitrary: table)
  case Nil
  show ?case by simp
next
  case (Cons r rs)
  show ?case
  proof (cases "key r \<in> key ` set table")
    case True
    from Cons.IH [of table] obtain new where
      "on_conflict_do_nothing key table rs = table @ new" "set new \<subseteq> set rs"
      "key ` set new \<inter> key ` set table = {}" by blast
    with True show ?thesis by auto
  next
    case False
    from Cons.IH [of "table @ [r]"] obtain new where
      new: "on_conflict_do_nothing key (table @ [r]) rs = (table @ [r]) @ new" "set new \<subseteq> set rs"
      "key ` set new \<inter> key ` set (table @ [r]) = {}" by blast
    from False new(1) have "on_conflict_do_nothing key table (r # rs) = table @ (r # new)"
      by simp
    moreover from new(2) have "set (r # new) \<subseteq> set (r # rs)" by auto
    moreover from False new(3) have "key ` set (r # new) \<inter> key ` set table = {}" by auto
    ultimately show ?thesis by blast
  qed
qed

lemma ocdn_fresh:
  "distinct (map key rows) \<Longrightarrow> key ` set rows \<inter> key ` set table = {} \<Longrightarrow>
   on_conflict_do_nothing key table rows = table @ rows"
proof (induction rows arbitrary: table)
  case Nil
  show ?case by simp
next
  case (Cons r rs)
  from Cons.prems have fresh: "key r \<notin> key ` set table" by auto
  from Cons.prems have "distinct (map key rs)"
    and "key ` set rs \<inter> key ` set (table @ [r]) = {}" by auto
  then have "on_conflict_do_nothing key (table @ [r]) rs = (table @ [r]) @ rs"
    by (rule Cons.IH)
  with fresh show ?case by simp
qed

lemma map_fst_enumerate_apply:
  "map (\<lambda>p. f (fst p)) (enumerate 0 xs) = map f [0..<length xs]"
proof -
  have "map fst (enumerate 0 xs) = [0..<length xs]"
    by (simp add: map_fst_enumerate)
  then have "map f (map fst (enumerate 0 xs)) = map f [0..<length xs]"
    by (rule arg_cong)
  then show ?thesis
    by (simp only: map_map comp_def)
qed

lemma with_defaults_ids:
  assumes "\<And>u x. key (row u x) = u"
  shows "map key (with_defaults row uuid xs) = map uuid [0..<length xs]"
  unfolding map_fst_enumerate_apply [symmetric]
  by (simp add: with_defaults_def assms case_prod_beta comp_def)

lemma with_defaults_fresh:
  assumes key: "\<And>u x. key (row u x) = u"
    and "distinct (map uuid [0..<length xs])"
    and "uuid ` {0..<length xs} \<inter> key ` set table = {}"
  shows "on_conflict_do_nothing key table (with_defaults row uuid xs) =
         table @ with_defaults row uuid xs"
proof (rule ocdn_fresh)
  show "distinct (map key (with_defaults row uuid xs))"
    using assms(2) by (simp only: with_defaults_ids [of key row, OF key])
  have "key ` set (with_defaults row uuid xs) = set (map key (with_defaults row uuid xs))"
    by simp
  also have "\<dots> = uuid ` {0..<length xs}"
    by (simp only: with_defaults_ids [of key row, OF key]) simp
  finally show "key ` set (with_defaults row uuid xs) \<inter> key ` set table = {}"
    using assms(3) by simp
qed

lemma ocdn_result:
  "\<exists>new. on_conflict_do_nothing key table rows = table @ new \<and> set new \<subseteq> set rows \<and>
         key ` set new \<inter> key ` set table = {} \<and>
         key ` set (table @ new) = key ` set table \<union> key ` set rows"
proof -
  from ocdn_keeps [of key table rows] obtain new where
    new: "on_conflict_do_nothing key table rows = table @ new" "set new \<subseteq> set rows"
      "key ` set new \<inter> key ` set table = {}" by blast
  have "key ` set (table @ new) = key ` set table \<union> key ` set rows"
    unfolding new(1) [symmetric] by (rule ocdn_keys)
  with new show ?thesis by blast
qed

lemma with_defaults_given:
  assumes "\<And>x. x \<in> set xs \<Longrightarrow> ri_id x \<noteq> None"
  shows "with_defaults repaymentRow uuid xs = with_defaults repaymentRow uuid' xs"
  unfolding with_defaults_def
proof (rule map_cong [OF refl])
  fix p assume "p \<in> set (enumerate 0 xs)"
  then have "fst p < length xs" and "xs ! fst p = snd p"
    by (simp_all add: in_set_enumerate_eq)
  then have "snd p \<in> set xs"
    by (metis nth_mem)
  then have "ri_id (snd p) \<noteq> None" by (rule assms)
  then show "(case p of (i, x) \<Rightarrow> repaymentRow (uuid i) x) =
             (case p of (i, x) \<Rightarrow> repaymentRow (uuid' i) x)"
    by (auto simp: repaymentRow_def case_prod_beta)
qed

lemma bulk_insert_empty:
  "bulkInsertCustomers s [] = s" "bulkInsertBranches s [] = s" "bulkInsertOfficers s [] = s"
  "bulkInsertLoans s [] = s" "bulkInsertFraudSignals s [] = s" "bulkInsertAiFeatures s [] = s"
  "bulkInsertDailyPerformance s uuid [] = s" "bulkInsertMonthlyPerformance s uuid [] = s"
  "bulkInsertOfficerPerformance s uuid [] = s" "bulkInsertRepayments s uuid [] = s"
  by (simp_all add: bulkInsertCustomers_def bulkInsertBranches_def bulkInsertOfficers_def
      bulkInsertLoans_def bulkInsertFraudSignals_def bulkInsertAiFeatures_def
      bulkInsertDailyPerformance_def bulkInsertMonthlyPerformance_def
      bulkInsertOfficerPerformance_def bulkInsertRepayments_def)

lemma bulk_insert_idem:
  "bulkInsertCustomers (bulkInsertCustomers s cs) cs = bulkInsertCustomers s cs"
  "bulkInsertBranches (bulkInsertBranches s bs) bs = bulkInsertBranches s bs"
  "bulkInsertOfficers (bulkInsertOfficers s os) os = bulkInsertOfficers s os"
  "bulkInsertLoans (bulkInsertLoans s ls) ls = bulkInsertLoans s ls"
  "bulkInsertFraudSignals (bulkInsertFraudSignals s fs) fs = bulkInsertFraudSignals s fs"
  "bulkInsertAiFeatures (bulkInsertAiFeatures s as) as = bulkInsertAiFeatures s as"
  by (simp_all add: bulkInsertCustomers_def bulkInsertBranches_def bulkInsertOfficers_def
      bulkInsertLoans_def bulkInsertFraudSignals_def bulkInsertAiFeatures_def ocdn_idem)

lemma bulk_insert_tables:
  "customers (bulkInsertCustomers s cs) = on_conflict_do_nothing c_customerId (customers s) cs"
  "branches (bulkInsertBranches s bs) = on_conflict_do_nothing b_branchId (branches s) bs"
  "officers (bulkInsertOfficers s os) = on_conflict_do_nothing o_officerId (officers s) os"
  "loans (bulkInsertLoans s ls) = on_conflict_do_nothing l_loanId (loans s) ls"
  "fraudSignals (bulkInsertFraudSignals s fs) =
     on_conflict_do_nothing f_customerId (fraudSignals s) fs"
  "aiCustomerFeatures (bulkInsertAiFeatures s as) =
     on_conflict_do_nothing a_customerId (aiCustomerFeatures s) as"
  "dailyBranchPerformance (bulkInsertDailyPerformance s uuid ds) =
     on_conflict_do_nothing d_id (dailyBranchPerformance s) (with_defaults dailyRow uuid ds)"
  "monthlyBranchSummary (bulkInsertMonthlyPerformance s uuid ms) =
     on_conflict_do_nothing ms_id (monthlyBranchSummary s) (with_defaults monthlyRow uuid ms)"
  "officerPerformance (bulkInsertOfficerPerformance s uuid ps) =
     on_conflict_do_nothing op_id (officerPerformance s)
       (with_defaults officerPerformanceRow uuid ps)"
  "repayments (bulkInsertRepayments s uuid rs) =
     on_conflict_do_nothing r_id (repayments s) (with_defaults repaymentRow uuid rs)"
  by (simp_all add: bulkInsertCustomers_def bulkInsertBranches_def bulkInsertOfficers_def
      bulkInsertLoans_def bulkInsertFraudSignals_def bulkInsertAiFeatures_def
      bulkInsertDailyPerformance_def bulkInsertMonthlyPerformance_def
      bulkInsertOfficerPerformance_def bulkInsertRepayments_def with_defaults_def)

lemma bulk_insert_appends:
  "\<exists>new. customers (bulkInsertCustomers s cs) = customers s @ new \<and> set new \<subseteq> set cs \<and>
     c_customerId ` set new \<inter> c_customerId ` set (customers s) = {} \<and>
     c_customerId ` set (customers s @ new) = c_customerId ` set (customers s) \<union> c_customerId ` set cs"
  "\<exists>new. branches (bulkInsertBranches s bs) = branches s @ new \<and> set new \<subseteq> set bs \<and>
     b_branchId ` set new \<inter> b_branchId ` set (branches s) = {} \<and>
     b_branchId ` set (branches s @ new) = b_branchId ` set (branches s) \<union> b_branchId ` set bs"
  "\<exists>new. officers (bulkInsertOfficers s os) = officers s @ new \<and> set new \<subseteq> set os \<and>
     o_officerId ` set new \<inter> o_officerId ` set (officers s) = {} \<and>
     o_officerId ` set (officers s @ new) = o_officerId ` set (officers s) \<union> o_officerId ` set os"
  "\<exists>new. loans (bulkInsertLoans s ls) = loans s @ new \<and> set new \<subseteq> set ls \<and>
     l_loanId ` set new \<inter> l_loanId ` set (loans s) = {} \<and>
     l_loanId ` set (loans s @ new) = l_loanId ` set (loans s) \<union> l_loanId ` set ls"
  "\<exists>new. fraudSignals (bulkInsertFraudSignals s fs) = fraudSignals s @ new \<and> set new \<subseteq> set fs \<and>
     f_customerId ` set new \<inter> f_customerId ` set (fraudSignals s) = {} \<and>
     f_customerId ` set (fraudSignals s @ new) =
       f_customerId ` set (fraudSignals s) \<union> f_customerId ` set fs"
  "\<exists>new. aiCustomerFeatures (bulkInsertAiFeatures s as) = aiCustomerFeatures s @ new \<and>
     set new \<subseteq> set as \<and>
     a_customerId ` set new \<inter> a_customerId ` set (aiCustomerFeatures s) = {} \<and>
     a_customerId ` set (aiCustomerFeatures s @ new) =
       a_customerId ` set (aiCustomerFeatures s) \<union> a_customerId ` set as"
  "\<exists>new. dailyBranchPerformance (bulkInsertDailyPerformance s uuid ds) =
       dailyBranchPerformance s @ new \<and>
     set new \<subseteq> set (with_defaults dailyRow uuid ds) \<and>
     d_id ` set new \<inter> d_id ` set (dailyBranchPerformance s) = {} \<and>
     d_id ` set (dailyBranchPerformance s @ new) =
       d_id ` set (dailyBranchPerformance s) \<union> d_id ` set (with_defaults dailyRow uuid ds)"
  "\<exists>new. monthlyBranchSummary (bulkInsertMonthlyPerformance s uuid ms) =
       monthlyBranchSummary s @ new \<and>
     set new \<subseteq> set (with_defaults monthlyRow uuid ms) \<and>
     ms_id ` set new \<inter> ms_id ` set (monthlyBranchSummary s) = {} \<and>
     ms_id ` set (monthlyBranchSummary s @ new) =
       ms_id ` set (monthlyBranchSummary s) \<union> ms_id ` set (with_defaults monthlyRow uuid ms)"
  "\<exists>new. officerPerformance (bulkInsertOfficerPerformance s uuid ps) =
       officerPerformance s @ new \<and>
     set new \<subseteq> set (with_defaults officerPerformanceRow uuid ps) \<and>
     op_id ` set new \<inter> op_id ` set (officerPerformance s) = {} \<and>
     op_id ` set (officerPerformance s @ new) =
       op_id ` set (officerPerformance s) \<union> op_id ` set (with_defaults officerPerformanceRow uuid ps)"
  "\<exists>new. repayments (bulkInsertRepayments s uuid rs) = repayments s @ new \<and>
     set new \<subseteq> set (with_defaults repaymentRow uuid rs) \<and>
     r_id ` set new \<inter> r_id ` set (repayments s) = {} \<and>
     r_id ` set (repayments s @ new) =
       r_id ` set (repayments s) \<union> r_id ` set (with_defaults repaymentRow uuid rs)"
  unfolding bulk_insert_tables by (rule ocdn_result)+

lemma daily_insert_generated:
  assumes "distinct (map uuid [0..<length ds])"
    and "uuid ` {0..<length ds} \<inter> d_id ` set (dailyBranchPerformance s) = {}"
  shows "dailyBranchPerformance (bulkInsertDailyPerformance s uuid ds) =
         dailyBranchPerformance s @ with_defaults dailyRow uuid ds"
  unfolding bulk_insert_tables
  using assms by (intro with_defaults_fresh) (simp_all add: dailyRow_def)

lemma monthly_insert_generated:
  assumes "distinct (map uuid [0..<length ms])"
    and "uuid ` {0..<length ms} \<inter> ms_id ` set (monthlyBranchSummary s) = {}"
  shows "monthlyBranchSummary (bulkInsertMonthlyPerformance s uuid ms) =
         monthlyBranchSummary s @ with_defaults monthlyRow uuid ms"
  unfolding bulk_insert_tables
  using assms by (intro with_defaults_fresh) (simp_all add: monthlyRow_def)

lemma officer_performance_insert_generated:
  assumes "distinct (map uuid [0..<length ps])"
    and "uuid ` {0..<length ps} \<inter> op_id ` set (officerPerformance s) = {}"
  shows "officerPerformance (bulkInsertOfficerPerformance s uuid ps) =
         officerPerformance s @ with_defaults officerPerformanceRow uuid ps"
  unfolding bulk_insert_tables
  using assms by (intro with_defaults_fresh) (simp_all add: officerPerformanceRow_def)

lemma repayments_insert_fresh:
  assumes "distinct (map r_id (with_defaults repaymentRow uuid rs))"
    and "r_id ` set (with_defaults repaymentRow uuid rs) \<inter> r_id ` set (repayments s) = {}"
  shows "repayments (bulkInsertRepayments s uuid rs) =
         repayments s @ with_defaults repaymentRow uuid rs"
  unfolding bulk_insert_tables using assms by (rule ocdn_fresh)

lemma repayments_insert_given_idem:
  assumes "\<And>x. x \<in> set rs \<Longrightarrow> ri_id x \<noteq> None"
  shows "bulkInsertRepayments (bulkInsertRepayments s uuid rs) uuid' rs =
         bulkInsertRepayments s uuid rs"
proof -
  have "with_defaults repaymentRow uuid' rs = with_defaults repaymentRow uuid rs"
    using assms by (rule with_defaults_given)
  then show ?thesis
    by (simp add: bulkInsertRepayments_def ocdn_idem)
qed

text \<open>
  C10, as the code has it. Every bulk insert returns the store unchanged for the empty
  list. Every bulk insert keeps the stored rows as they are and appends rows of its
  input, under keys that were not stored; afterwards the keys of the table are the keys
  stored before and the keys of the input (\<open>ON CONFLICT DO NOTHING\<close> on the primary
  key). Where the primary key is a column of the inserted rows (customers, branches,
  officers, loans, fraud signals, AI features), and for repayments that all bring their
  identifier, running the same insert again changes nothing. Where the key is generated
  (daily, monthly and officer performance, and repayments without an identifier), every
  row of the input is appended, provided the identifiers are distinct and not stored:
  the conflict clause never sees the content of a row.
\<close>

theorem bulk_insert_conflicts:
  "(bulkInsertCustomers s [] = s \<and> bulkInsertBranches s [] = s \<and> bulkInsertOfficers s [] = s \<and>
    bulkInsertLoans s [] = s \<and> bulkInsertFraudSignals s [] = s \<and> bulkInsertAiFeatures s [] = s \<and>
    bulkInsertDailyPerformance s uuid [] = s \<and> bulkInsertMonthlyPerformance s uuid [] = s \<and>
    bulkInsertOfficerPerformance s uuid [] = s \<and> bulkInsertRepayments s uuid [] = s)
   \<and> (\<exists>new. customers (bulkInsertCustomers s cs) = customers s @ new \<and> set new \<subseteq> set cs \<and>
     c_customerId ` set new \<inter> c_customerId ` set (customers s) = {} \<and>
     c_customerId ` set (customers s @ new) = c_customerId ` set (customers s) \<union> c_customerId ` set cs)
   \<and> (\<exists>new. branches (bulkInsertBranches s bs) = branches s @ new \<and> set new \<subseteq> set bs \<and>
     b_branchId ` set new \<inter> b_branchId ` set (branches s) = {} \<and>
     b_branchId ` set (branches s @ new) = b_branchId ` set (branches s) \<union> b_branchId ` set bs)
   \<and> (\<exists>new. officers (bulkInsertOfficers s os) = officers s @ new \<and> set new \<subseteq> set os \<and>
     o_officerId ` set new \<inter> o_officerId ` set (officers s) = {} \<and>
     o_officerId ` set (officers s @ new) = o_officerId ` set (officers s) \<union> o_officerId ` set os)
   \<and> (\<exists>new. loans (bulkInsertLoans s ls) = loans s @ new \<and> set new \<subseteq> set ls \<and>
     l_loanId ` set new \<inter> l_loanId ` set (loans s) = {} \<and>
     l_loanId ` set (loans s @ new) = l_loanId ` set (loans s) \<union> l_loanId ` set ls)
   \<and> (\<exists>new. fraudSignals (bulkInsertFraudSignals s fs) = fraudSignals s @ new \<and> set new \<subseteq> set fs \<and>
     f_customerId ` set new \<inter> f_customerId ` set (fraudSignals s) = {} \<and>
     f_customerId ` set (fraudSignals s @ new) =
       f_customerId ` set (fraudSignals s) \<union> f_customerId ` set fs)
   \<and> (\<exists>new. aiCustomerFeatures (bulkInsertAiFeatures s as) = aiCustomerFeatures s @ new \<and>
     set new \<subseteq> set as \<and>
     a_customerId ` set new \<inter> a_customerId ` set (aiCustomerFeatures s) = {} \<and>
     a_customerId ` set (aiCustomerFeatures s @ new) =
       a_customerId ` set (aiCustomerFeatures s) \<union> a_customerId ` set as)
   \<and> (\<exists>new. dailyBranchPerformance (bulkInsertDailyPerformance s uuid ds) =
       dailyBranchPerformance s @ new \<and>
     set new \<subseteq> set (with_defaults dailyRow uuid ds) \<and>
     d_id ` set new \<inter> d_id ` set (dailyBranchPerformance s) = {} \<and>
     d_id ` set (dailyBranchPerformance s @ new) =
       d_id ` set (dailyBranchPerformance s) \<union> d_id ` set (with_defaults dailyRow uuid ds))
   \<and> (\<exists>new. monthlyBranchSummary (bulkInsertMonthlyPerformance s uuid ms) =
       monthlyBranchSummary s @ new \<and>
     set new \<subseteq> set (with_defaults monthlyRow uuid ms) \<and>
     ms_id ` set new \<inter> ms_id ` set (monthlyBranchSummary s) = {} \<and>
     ms_id ` set (monthlyBranchSummary s @ new) =
       ms_id ` set (monthlyBranchSummary s) \<union> ms_id ` set (with_defaults monthlyRow uuid ms))
   \<and> (\<exists>new. officerPerformance (bulkInsertOfficerPerformance s uuid ps) =
       officerPerformance s @ new \<and>
     set new \<subseteq> set (with_defaults officerPerformanceRow uuid ps) \<and>
     op_id ` set new \<inter> op_id ` set (officerPerformance s) = {} \<and>
     op_id ` set (officerPerformance s @ new) =
       op_id ` set (officerPerformance s) \<union> op_id ` set (with_defaults officerPerformanceRow uuid ps))
   \<and> (\<exists>new. repayments (bulkInsertRepayments s uuid rs) = repayments s @ new \<and>
     set new \<subseteq> set (with_defaults repaymentRow uuid rs) \<and>
     r_id ` set new \<inter> r_id ` set (repayments s) = {} \<and>
     r_id ` set (repayments s @ new) =
       r_id ` set (repayments s) \<union> r_id ` set (with_defaults repaymentRow uuid rs))
   \<and> (bulkInsertCustomers (bulkInsertCustomers s cs) cs = bulkInsertCustomers s cs \<and>
      bulkInsertBranches (bulkInsertBranches s bs) bs = bulkInsertBranches s bs \<and>
      bulkInsertOfficers (bulkInsertOfficers s os) os = bulkInsertOfficers s os \<and>
      bulkInsertLoans (bulkInsertLoans s ls) ls = bulkInsertLoans s ls \<and>
      bulkInsertFraudSignals (bulkInsertFraudSignals s fs) fs = bulkInsertFraudSignals s fs \<and>
      bulkInsertAiFeatures (bulkInsertAiFeatures s as) as = bulkInsertAiFeatures s as)
   \<and> ((\<forall>x \<in> set rs'. ri_id x \<noteq> None) \<longrightarrow>
        bulkInsertRepayments (bulkInsertRepayments s uuid rs') uuid' rs' =
          bulkInsertRepayments s uuid rs')
   \<and> (distinct (map uuid [0..<length ds]) \<and>
      uuid ` {0..<length ds} \<inter> d_id ` set (dailyBranchPerformance s) = {} \<longrightarrow>
        dailyBranchPerformance (bulkInsertDailyPerformance s uuid ds) =
          dailyBranchPerformance s @ with_defaults dailyRow uuid ds)
   \<and> (distinct (map uuid [0..<length ms]) \<and>
      uuid ` {0..<length ms} \<inter> ms_id ` set (monthlyBranchSummary s) = {} \<longrightarrow>
        monthlyBranchSummary (bulkInsertMonthlyPerformance s uuid ms) =
          monthlyBranchSummary s @ with_defaults monthlyRow uuid ms)
   \<and> (distinct (map uuid [0..<length ps]) \<and>
      uuid ` {0..<length ps} \<inter> op_id ` set (officerPerformance s) = {} \<longrightarrow>
        officerPerformance (bulkInsertOfficerPerformance s uuid ps) =
          officerPerformance s @ with_defaults officerPerformanceRow uuid ps)
   \<and> (distinct (map r_id (with_defaults repaymentRow uuid rs)) \<and>
      r_id ` set (with_defaults repaymentRow uuid rs) \<inter> r_id ` set (repayments s) = {} \<longrightarrow>
        repayments (bulkInsertRepayments s uuid rs) =
          repayments s @ with_defaults repaymentRow uuid rs)"
proof -
  have given: "(\<forall>x \<in> set rs'. ri_id x \<noteq> None) \<longrightarrow>
        bulkInsertRepayments (bulkInsertRepayments s uuid rs') uuid' rs' =
          bulkInsertRepayments s uuid rs'"
    using repayments_insert_given_idem [of rs' s uuid uuid'] by blast
  have daily: "distinct (map uuid [0..<length ds]) \<and>
      uuid ` {0..<length ds} \<inter> d_id ` set (dailyBranchPerformance s) = {} \<longrightarrow>
        dailyBranchPerformance (bulkInsertDailyPerformance s uuid ds) =
          dailyBranchPerformance s @ with_defaults dailyRow uuid ds"
    using daily_insert_generated [of uuid ds s] by blast
  have monthly: "distinct (map uuid [0..<length ms]) \<and>
      uuid ` {0..<length ms} \<inter> ms_id ` set (monthlyBranchSummary s) = {} \<longrightarrow>
        monthlyBranchSummary (bulkInsertMonthlyPerformance s uuid ms) =
          monthlyBranchSummary s @ with_defaults monthlyRow uuid ms"
    using monthly_insert_generated [of uuid ms s] by blast
  have officer: "distinct (map uuid [0..<length ps]) \<and>
      uuid ` {0..<length ps} \<inter> op_id ` set (officerPerformance s) = {} \<longrightarrow>
        officerPerformance (bulkInsertOfficerPerformance s uuid ps) =
          officerPerformance s @ with_defaults officerPerformanceRow uuid ps"
    using officer_performance_insert_generated [of uuid ps s] by blast
  have repayment: "distinct (map r_id (with_defaults repaymentRow uuid rs)) \<and>
      r_id ` set (with_defaults repaymentRow uuid rs) \<inter> r_id ` set (repayments s) = {} \<longrightarrow>
        repayments (bulkInsertRepayments s uuid rs) =
          repayments s @ with_defaults repaymentRow uuid rs"
    using repayments_insert_fresh [of uuid rs s] by blast
  show ?thesis
    apply (intro conjI)
    apply (rule bulk_insert_empty bulk_insert_appends bulk_insert_idem
        given daily monthly officer repayment)+
    done
qed

theorem bulk_insert_conflicts_witness:
  "customers (bulkInsertCustomers store_with_rows
      [mkCustomer ''C1'' ''B9'' ''South'', mkCustomer ''C2'' ''B1'' ''North'']) =
     [mkCustomer ''C1'' ''B1'' ''North'', mkCustomer ''C2'' ''B1'' ''North'']
   \<and> ri_id sampleRepaymentWithId \<noteq> None
   \<and> repayments (bulkInsertRepayments
        (bulkInsertRepayments store_with_rows sampleUuids [sampleRepaymentWithId])
        (\<lambda>i. ''u9'') [sampleRepaymentWithId]) =
       [repaymentRow ''r0'' sampleRepayment, repaymentRow ''r7'' sampleRepayment]
   \<and> distinct (map sampleUuids [0..<length [sampleDaily, sampleDaily\<lparr>di_branchId := ''B2''\<rparr>]])
   \<and> sampleUuids ` {0..<length [sampleDaily, sampleDaily\<lparr>di_branchId := ''B2''\<rparr>]}
       \<inter> d_id ` set (dailyBranchPerformance store_with_rows) = {}
   \<and> dailyBranchPerformance (bulkInsertDailyPerformance store_with_rows sampleUuids
        [sampleDaily, sampleDaily\<lparr>di_branchId := ''B2''\<rparr>]) =
       [dailyRow ''d0'' sampleDaily, dailyRow ''u1'' sampleDaily,
        dailyRow ''u2'' (sampleDaily\<lparr>di_branchId := ''B2''\<rparr>)]
   \<and> distinct (map sampleUuids [0..<length [sampleMonthly, sampleMonthly]])
   \<and> sampleUuids ` {0..<length [sampleMonthly, sampleMonthly]}
       \<inter> ms_id ` set (monthlyBranchSummary store_with_rows) = {}
   \<and> monthlyBranchSummary (bulkInsertMonthlyPerformance store_with_rows sampleUuids
        [sampleMonthly, sampleMonthly]) =
       [monthlyRow ''m0'' sampleMonthly, monthlyRow ''u1'' sampleMonthly,
        monthlyRow ''u2'' sampleMonthly]
   \<and> distinct (map sampleUuids [0..<length [sampleOfficerPerformance, sampleOfficerPerformance]])
   \<and> sampleUuids ` {0..<length [sampleOfficerPerformance, sampleOfficerPerformance]}
       \<inter> op_id ` set (officerPerformance store_with_rows) = {}
   \<and> officerPerformance (bulkInsertOfficerPerformance store_with_rows sampleUuids
        [sampleOfficerPerformance, sampleOfficerPerformance]) =
       [officerPerformanceRow ''p0'' sampleOfficerPerformance,
        officerPerformanceRow ''u1'' sampleOfficerPerformance,
        officerPerformanceRow ''u2'' sampleOfficerPerformance]
   \<and> distinct (map r_id (with_defaults repaymentRow sampleUuids [sampleRepayment, sampleRepayment]))
   \<and> r_id ` set (with_defaults repaymentRow sampleUuids [sampleRepayment, sampleRepayment])
       \<inter> r_id ` set (repayments store_with_rows) = {}
   \<and> repayments (bulkInsertRepayments store_with_rows sampleUuids
        [sampleRepayment, sampleRepayment]) =
       [repaymentRow ''r0'' sampleRepayment, repaymentRow ''u1'' sampleRepayment,
        repaymentRow ''u2'' sampleRepayment]"
  using bulk_insert_conflicts [where s = store_with_rows and uuid = sampleUuids
      and cs = "[mkCustomer ''C1'' ''B9'' ''South'', mkCustomer ''C2'' ''B1'' ''North'']"
      and bs = "[]" and os = "[]" and ls = "[]" and fs = "[]" and as = "[]"
      and ds = "[sampleDaily, sampleDaily\<lparr>di_branchId := ''B2''\<rparr>]"
      and ms = "[sampleMonthly, sampleMonthly]"
      and ps = "[sampleOfficerPerformance, sampleOfficerPerformance]"
      and rs = "[sampleRepayment, sampleRepayment]"
      and rs' = "[sampleRepaymentWithId]" and uuid' = "\<lambda>i. ''u9''"]
  by (simp add: bulkInsertCustomers_def bulkInsertBranches_def bulkInsertOfficers_def
      bulkInsertLoans_def bulkInsertFraudSignals_def bulkInsertAiFeatures_def
      bulkInsertDailyPerformance_def bulkInsertMonthlyPerformance_def
      bulkInsertOfficerPerformance_def bulkInsertRepayments_def
      store_with_rows_def empty_store_def mkCustomer_def
      with_defaults_def sampleUuids_def sampleRepaymentWithId_def sampleRepayment_def
      repaymentRow_def dailyRow_def monthlyRow_def officerPerformanceRow_def
      atLeast0_lessThan_Suc)

text \<open>
  C10 as stated fails for the tables with a generated key: the same daily row inserted
  twice is stored twice, under the two generated identifiers, and so is the same
  repayment without an identifier.
\<close>

theorem daily_insert_twice_duplicates:
  "bulkInsertDailyPerformance
     (bulkInsertDailyPerformance empty_store (\<lambda>i. ''u1'') [sampleDaily]) (\<lambda>i. ''u2'') [sampleDaily]
   \<noteq> bulkInsertDailyPerformance empty_store (\<lambda>i. ''u1'') [sampleDaily]
   \<and> dailyBranchPerformance
       (bulkInsertDailyPerformance
          (bulkInsertDailyPerformance empty_store (\<lambda>i. ''u1'') [sampleDaily])
          (\<lambda>i. ''u2'') [sampleDaily]) =
     [dailyRow ''u1'' sampleDaily, dailyRow ''u2'' sampleDaily]
   \<and> repayments
       (bulkInsertRepayments
          (bulkInsertRepayments empty_store (\<lambda>i. ''u1'') [sampleRepayment])
          (\<lambda>i. ''u2'') [sampleRepayment]) =
     [repaymentRow ''u1'' sampleRepayment, repaymentRow ''u2'' sampleRepayment]"
  by (simp add: bulkInsertDailyPerformance_def bulkInsertRepayments_def empty_store_def
      with_defaults_def dailyRow_def repaymentRow_def sampleRepayment_def)

end
